theory Spec2Isabelle
  imports Complex_Main "HOL-Library.Multiset"
begin

section \<open>Text\<close>

text \<open>
  A Python \<open>str\<close> is modelled as a \<^typ>\<open>string\<close>: one \<^typ>\<open>char\<close> stands for one code
  point, so the model covers the code points below 256.
\<close>

definition is_space :: "char \<Rightarrow> bool" where
  \<comment> \<open>\<open>str.isspace\<close> and the regular expression class \<open>\s\<close> on one code point\<close>
  "is_space c =
     (let n = (of_char c :: nat)
      in (9 \<le> n \<and> n \<le> 13) \<or> (28 \<le> n \<and> n \<le> 32) \<or> n = 133 \<or> n = 160)"

definition strip :: "string \<Rightarrow> string" where
  "strip s = rev (dropWhile is_space (rev (dropWhile is_space s)))"

definition lower_char :: "char \<Rightarrow> char" where
  \<comment> \<open>an upper-case letter is lowered by adding 32, that is by setting the bit of value 32\<close>
  "lower_char c =
     (let n = (of_char c :: nat)
      in if (65 \<le> n \<and> n \<le> 90) \<or> (192 \<le> n \<and> n \<le> 222 \<and> n \<noteq> 215)
         then (case c of Char b0 b1 b2 b3 b4 b5 b6 b7 \<Rightarrow> Char b0 b1 b2 b3 b4 True b6 b7)
         else c)"

definition lower :: "string \<Rightarrow> string" where
  "lower s = map lower_char s"

fun starts_with :: "string \<Rightarrow> string \<Rightarrow> bool" where
  "starts_with s [] = True"
| "starts_with [] (p # ps) = False"
| "starts_with (c # cs) (p # ps) = (c = p \<and> starts_with cs ps)"

fun contains :: "string \<Rightarrow> string \<Rightarrow> bool" where
  \<comment> \<open>\<open>pattern in s\<close>\<close>
  "contains [] p = (p = [])"
| "contains (c # cs) p = (starts_with (c # cs) p \<or> contains cs p)"

definition dict_get :: "('k \<times> 'v) list \<Rightarrow> 'k \<Rightarrow> 'v \<Rightarrow> 'v" where
  \<comment> \<open>\<open>d.get(k, default)\<close> on a dictionary literal\<close>
  "dict_get d k dflt = (case map_of d k of Some v \<Rightarrow> v | None \<Rightarrow> dflt)"

section \<open>Floating point\<close>

text \<open>
  A Python \<open>float\<close> is an IEEE 754 binary64 number: a finite number, an infinity or a
  NaN. A finite number is kept as the real number it denotes, so the two zeros are one
  value (they compare equal). Multiplication and addition round the exact result to the
  nearest double, a tie going to the even significand; a result of magnitude
  \<open>2 ^ 1024\<close> or more after rounding is an infinity.

  The inputs of the pipeline that are floats (a confidence, a weight, a multiplier, the
  threshold) are kept as reals and stand for finite doubles; \<open>dbl\<close> gives the double that
  a decimal literal of the source denotes.
\<close>

datatype double = Fin real | PInf | NInf | NaN

definition pow2 :: "int \<Rightarrow> real" where
  "pow2 k = (if 0 \<le> k then 2 ^ nat k else 1 / 2 ^ nat (- k))"

definition round_half_even :: "real \<Rightarrow> int" where
  \<comment> \<open>the nearest integer, a tie going to the even neighbour\<close>
  "round_half_even y =
     (let f = \<lfloor>y\<rfloor>; d = y - of_int f
      in if d < 1 / 2 then f else if d > 1 / 2 then f + 1 else if even f then f else f + 1)"

function expo_up :: "nat \<Rightarrow> real \<Rightarrow> int \<Rightarrow> int" where
  \<comment> \<open>for \<open>x \<ge> 1\<close>: halves \<open>x\<close> until it is below 2, at most \<open>n\<close> times\<close>
  "expo_up n x e = (if n = 0 \<or> x < 2 then e else expo_up (n - 1) (x / 2) (e + 1))"
  by pat_completeness auto
termination
  by (relation "measure (\<lambda>(n, x, e). n)") auto

function expo_down :: "nat \<Rightarrow> real \<Rightarrow> int \<Rightarrow> int" where
  \<comment> \<open>for \<open>0 < x < 1\<close>: doubles \<open>x\<close> until it is 1 or more, at most \<open>n\<close> times\<close>
  "expo_down n x e = (if n = 0 \<or> 1 \<le> x then e else expo_down (n - 1) (2 * x) (e - 1))"
  by pat_completeness auto
termination
  by (relation "measure (\<lambda>(n, x, e). n)") auto

definition exponent_of :: "real \<Rightarrow> int" where
  \<comment> \<open>the exponent \<open>e\<close> of the binade of a non-zero number, \<open>2 ^ e \<le> |x| < 2 ^ (e + 1)\<close>,
     not below the least normal exponent -1022 and not above 1024\<close>
  "exponent_of x = (if 1 \<le> \<bar>x\<bar> then expo_up 1024 \<bar>x\<bar> 0 else expo_down 1022 \<bar>x\<bar> 0)"

definition round_to_double :: "real \<Rightarrow> double" where
  \<comment> \<open>the nearest double: the spacing of the doubles in the binade of \<open>x\<close> is
     \<open>2 ^ (e - 52)\<close>\<close>
  "round_to_double x =
     (if x = 0 then Fin 0
      else (let q = pow2 (exponent_of x - 52);
                y = of_int (round_half_even (x / q)) * q
            in if pow2 1024 \<le> \<bar>y\<bar> then (if 0 < x then PInf else NInf) else Fin y))"

definition dbl :: "real \<Rightarrow> real" where
  \<comment> \<open>the finite double written as a decimal literal\<close>
  "dbl x = (case round_to_double x of Fin y \<Rightarrow> y | _ \<Rightarrow> 0)"

definition dsign :: "double \<Rightarrow> int" where
  "dsign a = (case a of Fin x \<Rightarrow> sgn \<lfloor>sgn x\<rfloor> | PInf \<Rightarrow> 1 | NInf \<Rightarrow> - 1 | NaN \<Rightarrow> 0)"

definition fmul :: "double \<Rightarrow> double \<Rightarrow> double" where
  \<comment> \<open>\<open>a * b\<close>\<close>
  "fmul a b =
     (case (a, b) of
        (Fin x, Fin y) \<Rightarrow> round_to_double (x * y)
      | _ \<Rightarrow>
          (if a = NaN \<or> b = NaN \<or> dsign a * dsign b = 0 then NaN
           else if 0 < dsign a * dsign b then PInf else NInf))"

definition fadd :: "double \<Rightarrow> double \<Rightarrow> double" where
  \<comment> \<open>\<open>a + b\<close>\<close>
  "fadd a b =
     (case (a, b) of
        (Fin x, Fin y) \<Rightarrow> round_to_double (x + y)
      | (Fin x, _) \<Rightarrow> b
      | (_, Fin y) \<Rightarrow> a
      | _ \<Rightarrow> (if a = b then a else NaN))"

definition flt :: "double \<Rightarrow> double \<Rightarrow> bool" where
  \<comment> \<open>\<open>a < b\<close>: false when either side is a NaN\<close>
  "flt a b =
     (case (a, b) of
        (Fin x, Fin y) \<Rightarrow> x < y
      | (NInf, Fin y) \<Rightarrow> True
      | (NInf, PInf) \<Rightarrow> True
      | (Fin x, PInf) \<Rightarrow> True
      | _ \<Rightarrow> False)"

definition pymin :: "double \<Rightarrow> double \<Rightarrow> double" where
  \<comment> \<open>the builtin \<open>min(a, b)\<close>: the second argument when it is smaller, else the first\<close>
  "pymin a b = (if flt b a then b else a)"

definition py_round :: "nat \<Rightarrow> double \<Rightarrow> double" where
  \<comment> \<open>\<open>round(x, ndigits)\<close>: the double nearest to the exact value rounded half-even to
     \<open>ndigits\<close> decimals; an infinity or a NaN is returned as it is\<close>
  "py_round ndigits a =
     (case a of
        Fin x \<Rightarrow> round_to_double (of_int (round_half_even (x * 10 ^ ndigits)) / 10 ^ ndigits)
      | _ \<Rightarrow> a)"

section \<open>Data model (state.py)\<close>

record ClaimData =
  claim_id :: string
  claim_text :: string
  claim_type :: string
  implicit_assumptions :: "string list"

record FailureSignal =
  failure_type :: string
  detected :: bool
  confidence :: real
  severity :: string
  evidence :: "string list"
  related_claim_ids :: "string list"
  explanation :: string

record RecommendationData =
  recommendation_id :: string
  priority :: int
  rec_failure_type :: string
  title :: string
  description :: string
  implementation_hint :: "string option"

record ContributingFactor =
  cf_failure_type :: string
  cf_confidence :: real
  cf_severity :: string
  type_weight :: real
  severity_multiplier :: real
  cf_domain_multiplier :: real
  contribution :: double

text \<open>
  The run state. The timing fields (\<open>start_time\<close>, \<open>end_time\<close>, \<open>node_times\<close>), the
  opaque \<open>model_metadata\<close> and \<open>execution_trace\<close> and the narrative fields that only
  the explanation node writes are left out; an entry of \<open>errors\<close> is the pair of its
  \<open>node\<close> and \<open>error\<close> values.
\<close>

record AnalysisState =
  question :: string
  answer :: string
  context_str :: string
  domain :: string
  precheck_passed :: bool
  precheck_failure_reason :: "string option"
  answer_type :: string
  claims :: "ClaimData list"
  assumptions :: "string list"
  reasoning_steps :: "string list"
  failure_signals :: "FailureSignal list"
  hallucination_signal :: "FailureSignal option"
  logical_signal :: "FailureSignal option"
  assumptions_signal :: "FailureSignal option"
  overconfidence_signal :: "FailureSignal option"
  scope_signal :: "FailureSignal option"
  underspec_signal :: "FailureSignal option"
  detected_failures :: "FailureSignal list"
  failure_detected :: bool
  failure_types :: "string list"
  risk_score :: double
  risk_level :: string
  domain_multiplier :: real
  contributing_factors :: "ContributingFactor list"
  st_explanation :: string
  recommendations :: "RecommendationData list"
  errors :: "(string \<times> string) list"

definition create_initial_state :: "string \<Rightarrow> string \<Rightarrow> string option \<Rightarrow> string \<Rightarrow> AnalysisState" where
  "create_initial_state q a c d =
     \<lparr> question = q, answer = a,
       context_str = (case c of None \<Rightarrow> [] | Some t \<Rightarrow> t),
       domain = d,
       precheck_passed = False, precheck_failure_reason = None, answer_type = ''unknown'',
       claims = [], assumptions = [], reasoning_steps = [],
       failure_signals = [],
       hallucination_signal = None, logical_signal = None, assumptions_signal = None,
       overconfidence_signal = None, scope_signal = None, underspec_signal = None,
       detected_failures = [], failure_detected = False, failure_types = [],
       risk_score = Fin 0.0, risk_level = ''low'', domain_multiplier = 1.0,
       contributing_factors = [],
       st_explanation = [], recommendations = [], errors = [] \<rparr>"

section \<open>Configuration (config.py)\<close>

record Settings =
  failure_confidence_threshold :: real
  weight_hallucination :: real
  weight_logical_inconsistency :: real
  weight_missing_assumptions :: real
  weight_overconfidence :: real
  weight_scope_violation :: real
  weight_underspecification :: real
  domain_multiplier_general :: real
  domain_multiplier_finance :: real
  domain_multiplier_medical :: real
  domain_multiplier_legal :: real
  domain_multiplier_code :: real

definition default_settings :: Settings where
  "default_settings =
     \<lparr> failure_confidence_threshold = 0.5,
       weight_hallucination = dbl 0.35,
       weight_logical_inconsistency = 0.25,
       weight_missing_assumptions = dbl 0.20,
       weight_overconfidence = dbl 0.10,
       weight_scope_violation = dbl 0.05,
       weight_underspecification = dbl 0.05,
       domain_multiplier_general = 1.0,
       domain_multiplier_finance = 1.5,
       domain_multiplier_medical = 2.0,
       domain_multiplier_legal = dbl 1.8,
       domain_multiplier_code = dbl 1.3 \<rparr>"

definition failure_weights :: "Settings \<Rightarrow> (string \<times> real) list" where
  "failure_weights st =
     [(''hallucination'', weight_hallucination st),
      (''logical_inconsistency'', weight_logical_inconsistency st),
      (''missing_assumptions'', weight_missing_assumptions st),
      (''overconfidence'', weight_overconfidence st),
      (''scope_violation'', weight_scope_violation st),
      (''underspecification'', weight_underspecification st)]"

definition domain_multipliers :: "Settings \<Rightarrow> (string \<times> real) list" where
  "domain_multipliers st =
     [(''general'', domain_multiplier_general st),
      (''finance'', domain_multiplier_finance st),
      (''medical'', domain_multiplier_medical st),
      (''legal'', domain_multiplier_legal st),
      (''code'', domain_multiplier_code st)]"

section \<open>Aggregation node (aggregation.py)\<close>

definition collect_signals :: "AnalysisState \<Rightarrow> FailureSignal list" where
  \<comment> \<open>the loop over \<open>signal_keys\<close>: a slot that is \<open>None\<close> is skipped\<close>
  "collect_signals state =
     List.map_filter id
       [hallucination_signal state, logical_signal state, assumptions_signal state,
        overconfidence_signal state, scope_signal state, underspec_signal state]"

fun filter_signals ::
  "real \<Rightarrow> FailureSignal list \<Rightarrow> FailureSignal list \<times> string list
     \<Rightarrow> FailureSignal list \<times> string list" where
  \<comment> \<open>the filtering loop, with \<open>detected_failures\<close> and \<open>failure_types\<close> as accumulators\<close>
  "filter_signals threshold [] acc = acc"
| "filter_signals threshold (signal # rest) (dfs, fts) =
     (if detected signal then
        (if confidence signal \<ge> threshold then
           filter_signals threshold rest
             (dfs @ [signal],
              if failure_type signal \<notin> set fts then fts @ [failure_type signal] else fts)
         else filter_signals threshold rest (dfs, fts))
      else filter_signals threshold rest (dfs, fts))"

definition sort_by_confidence :: "FailureSignal list \<Rightarrow> FailureSignal list" where
  \<comment> \<open>\<open>list.sort(key=confidence, reverse=True)\<close>: stable, highest confidence first\<close>
  "sort_by_confidence fs = sort_key (\<lambda>s. - confidence s) fs"

definition aggregation_node :: "Settings \<Rightarrow> AnalysisState \<Rightarrow> AnalysisState" where
  "aggregation_node settings state =
     (let threshold = failure_confidence_threshold settings;
          signals = collect_signals state;
          (dfs, fts) = filter_signals threshold signals ([], []);
          dfs' = sort_by_confidence dfs
      in state\<lparr> failure_signals := signals,
                detected_failures := dfs',
                failure_detected := (length dfs' > 0),
                failure_types := fts \<rparr>)"

section \<open>Risk scoring node (risk_scoring.py)\<close>

definition severity_multipliers :: "(string \<times> real) list" where
  "severity_multipliers =
     [(''low'', 0.25), (''medium'', 0.5), (''high'', 0.75), (''critical'', 1.0)]"

definition factor_of :: "Settings \<Rightarrow> real \<Rightarrow> FailureSignal \<Rightarrow> double \<times> ContributingFactor" where
  \<comment> \<open>one pass of the loop body: the contribution, and the breakdown entry recorded for it\<close>
  "factor_of settings dm failure =
     (let ft = failure_type failure;
          conf = confidence failure;
          sev = severity failure;
          tw = dict_get (failure_weights settings) ft (dbl 0.1);
          severity_mult = dict_get severity_multipliers sev 0.5;
          contrib = fmul (fmul (fmul (Fin conf) (Fin tw)) (Fin severity_mult)) (Fin dm)
      in (contrib,
          \<lparr> cf_failure_type = ft, cf_confidence = conf, cf_severity = sev,
            type_weight = tw, severity_multiplier = severity_mult,
            cf_domain_multiplier = dm, contribution = py_round 4 contrib \<rparr>))"

fun risk_loop ::
  "Settings \<Rightarrow> real \<Rightarrow> FailureSignal list \<Rightarrow> double \<times> ContributingFactor list
     \<Rightarrow> double \<times> ContributingFactor list" where
  \<comment> \<open>the loop over \<open>detected_failures\<close>, with \<open>total_risk\<close> and \<open>contributing_factors\<close>
     as accumulators\<close>
  "risk_loop settings dm [] acc = acc"
| "risk_loop settings dm (failure # rest) (risk, cfs) =
     (let (contrib, cf) = factor_of settings dm failure
      in risk_loop settings dm rest (fadd risk contrib, cfs @ [cf]))"

definition total_risk :: "Settings \<Rightarrow> AnalysisState \<Rightarrow> double" where
  "total_risk settings state =
     fst (risk_loop settings (dict_get (domain_multipliers settings) (domain state) 1.0)
            (detected_failures state) (Fin 0.0, []))"

definition capped_risk :: "Settings \<Rightarrow> AnalysisState \<Rightarrow> double" where
  \<comment> \<open>the local \<open>risk_score = min(total_risk, 1.0)\<close>, before it is rounded\<close>
  "capped_risk settings state = pymin (total_risk settings state) (Fin 1.0)"

definition risk_level_of :: "double \<Rightarrow> string" where
  "risk_level_of score =
     (if flt score (Fin 0.25) then ''low''
      else if flt score (Fin 0.5) then ''medium''
      else if flt score (Fin 0.75) then ''high''
      else ''critical'')"

text \<open>
  The node's \<open>risk_explanation\<close> is presentation text built from the values below and
  is not part of the model.
\<close>

definition risk_scoring_node :: "Settings \<Rightarrow> AnalysisState \<Rightarrow> AnalysisState" where
  "risk_scoring_node settings state =
     (let dm = dict_get (domain_multipliers settings) (domain state) 1.0;
          (risk, cfs) = risk_loop settings dm (detected_failures state) (Fin 0.0, []);
          score = pymin risk (Fin 1.0);
          level = risk_level_of score
      in state\<lparr> risk_score := py_round 3 score,
                risk_level := level,
                domain_multiplier := dm,
                contributing_factors := cfs \<rparr>)"


definition signal :: "string \<Rightarrow> bool \<Rightarrow> real \<Rightarrow> string \<Rightarrow> FailureSignal" where
  \<comment> \<open>a signal with empty evidence, for concrete runs\<close>
  "signal ft d c sev =
     \<lparr> failure_type = ft, detected = d, confidence = c, severity = sev,
       evidence = [], related_claim_ids = [], explanation = [] \<rparr>"

definition state_with :: "string \<Rightarrow> FailureSignal list \<Rightarrow> AnalysisState" where
  \<comment> \<open>a state as the aggregator leaves it, with the given domain and retained failures\<close>
  "state_with d fs = (create_initial_state ''q'' ''a'' None d)\<lparr> detected_failures := fs \<rparr>"

section \<open>Calls to the structured model client\<close>

text \<open>
  What a node sees of one \<open>generate_structured\<close> call: the call raised (with the
  exception's text), it returned the dictionary flagged \<open>_parse_error\<close>, or it returned
  a parsed reply. A reply is modelled with the JSON types its prompt asks for, an absent key
  being \<open>None\<close>.
\<close>

datatype 'a llm_call = Raised string | ParseError | Parsed 'a

section \<open>Precheck node (precheck.py)\<close>

record precheck_reply =
  is_valid :: "bool option"
  reply_answer_type :: "string option"
  proceed_with_analysis :: "bool option"
  reason :: "string option"

definition refusal_patterns :: "string list" where
  "refusal_patterns =
     [''i cannot'', ''i can't'', ''i'm not able to'', ''i am not able to'',
      ''i don't have access'', ''i'm sorry, but i cannot'', ''as an ai'', ''i'm unable to'']"

definition error_patterns :: "string list" where
  "error_patterns =
     [''error:'', ''exception:'', ''traceback'', ''failed to'', ''unable to process'']"

definition is_refusal :: "string \<Rightarrow> bool" where
  \<comment> \<open>of the stripped answer\<close>
  "is_refusal a = list_ex (contains (lower a)) refusal_patterns"

definition is_error :: "string \<Rightarrow> bool" where
  "is_error a = list_ex (contains (lower a)) error_patterns"

definition or_default :: "'a option \<Rightarrow> 'a \<Rightarrow> 'a" where
  \<comment> \<open>\<open>result.get(key, default)\<close> on a reply\<close>
  "or_default v dflt = (case v of None \<Rightarrow> dflt | Some x \<Rightarrow> x)"

definition precheck_node :: "precheck_reply llm_call \<Rightarrow> AnalysisState \<Rightarrow> AnalysisState" where
  "precheck_node call state =
     (let q = strip (question state); a = strip (answer state)
      in if q = [] then
           state\<lparr> precheck_passed := False,
                  precheck_failure_reason := Some ''Question is empty'',
                  answer_type := ''invalid'' \<rparr>
         else if a = [] then
           state\<lparr> precheck_passed := False,
                  precheck_failure_reason := Some ''Answer is empty'',
                  answer_type := ''empty'' \<rparr>
         else if is_refusal a \<and> length a < 200 then
           state\<lparr> precheck_passed := True,
                  precheck_failure_reason := None,
                  answer_type := ''refusal'' \<rparr>
         else if is_error a \<and> length a < 500 then
           state\<lparr> precheck_passed := False,
                  precheck_failure_reason := Some ''Answer appears to be an error message'',
                  answer_type := ''error'' \<rparr>
         else
           (case call of
              ParseError \<Rightarrow>
                state\<lparr> precheck_passed := True,
                       precheck_failure_reason := None,
                       answer_type := ''response'' \<rparr>
            | Parsed result \<Rightarrow>
                (let valid = or_default (is_valid result) True;
                     atype = or_default (reply_answer_type result) ''response'';
                     proceed = or_default (proceed_with_analysis result) True
                 in state\<lparr> precheck_passed := (valid \<and> proceed),
                           precheck_failure_reason :=
                             (if \<not> (valid \<and> proceed) then reason result else None),
                           answer_type := atype \<rparr>)
            | Raised e \<Rightarrow>
                state\<lparr> precheck_passed := True,
                       precheck_failure_reason := None,
                       answer_type := ''response'',
                       errors := errors state @ [(''precheck'', e)] \<rparr>))"

section \<open>Early exit (orchestrator.py)\<close>

definition py_str_opt :: "string option \<Rightarrow> string" where
  \<comment> \<open>how an f-string prints an optional text\<close>
  "py_str_opt v = (case v of None \<Rightarrow> ''None'' | Some t \<Rightarrow> t)"

definition early_exit_node :: "AnalysisState \<Rightarrow> AnalysisState" where
  "early_exit_node state =
     state\<lparr> failure_detected := False,
            failure_types := [],
            detected_failures := [],
            risk_score := Fin 0.0,
            risk_level := ''low'',
            st_explanation := ''Analysis skipped: '' @ py_str_opt (precheck_failure_reason state),
            recommendations := [] \<rparr>"

section \<open>Decomposition node (decomposition.py)\<close>

definition digit_char :: "nat \<Rightarrow> char" where
  \<comment> \<open>the decimal digit of a number below 10\<close>
  "digit_char d = ''0123456789'' ! d"

function str_nat :: "nat \<Rightarrow> string" where
  \<comment> \<open>\<open>str(n)\<close> for a non-negative integer\<close>
  "str_nat n = (if n < 10 then [digit_char n] else str_nat (n div 10) @ [digit_char (n mod 10)])"
  by pat_completeness auto
termination
  by (relation "measure id") auto

definition sentence_end :: "char \<Rightarrow> bool" where
  \<comment> \<open>the class \<open>[.!?]\<close>\<close>
  "sentence_end c = (c = CHR ''.'' \<or> c = CHR ''!'' \<or> c = CHR ''?'')"

function split_sentences :: "string \<Rightarrow> string \<Rightarrow> string list" where
  \<comment> \<open>\<open>re.split(r'(?<=[.!?])\s+', text)\<close>, the first argument being the piece read so far: a
     run of whitespace that follows a sentence end is a separator\<close>
  "split_sentences cur [] = [cur]"
| "split_sentences cur (c # cs) =
     (if sentence_end c \<and> cs \<noteq> [] \<and> is_space (hd cs)
      then (cur @ [c]) # split_sentences [] (dropWhile is_space cs)
      else split_sentences (cur @ [c]) cs)"
  by pat_completeness auto
termination
  by (relation "measure (\<lambda>(cur, text). length text)")
    (auto simp: le_imp_less_Suc length_dropWhile_le)

fun fallback_loop :: "nat \<Rightarrow> string list \<Rightarrow> ClaimData list" where
  \<comment> \<open>the loop over \<open>enumerate(sentences)\<close>, from index \<open>i\<close>\<close>
  "fallback_loop i [] = []"
| "fallback_loop i (sentence # rest) =
     (let s = strip sentence
      in if length s > 10
         then \<lparr> claim_id = ''c'' @ str_nat (i + 1), claim_text = s,
                claim_type = ''factual'', implicit_assumptions = [] \<rparr>
              # fallback_loop (i + 1) rest
         else fallback_loop (i + 1) rest)"

definition fallback_claim_extraction :: "string \<Rightarrow> ClaimData list" where
  "fallback_claim_extraction a = take 20 (fallback_loop 0 (split_sentences [] (strip a)))"

fun join_pieces :: "string list \<Rightarrow> string list \<Rightarrow> string" where
  \<comment> \<open>the pieces of a split put together again, with the separators between them\<close>
  "join_pieces [] seps = []"
| "join_pieces [p] seps = p"
| "join_pieces (p # q # ps) [] = p @ join_pieces (q # ps) []"
| "join_pieces (p # q # ps) (s # seps) = p @ s @ join_pieces (q # ps) seps"

fun has_split_point :: "string \<Rightarrow> bool" where
  \<comment> \<open>some sentence end in the text is followed by whitespace\<close>
  "has_split_point (c # d # cs) = ((sentence_end c \<and> is_space d) \<or> has_split_point (d # cs))"
| "has_split_point cs = False"

record raw_claim =
  raw_claim_id :: "string option"
  raw_claim_text :: "string option"
  raw_claim_type :: "string option"
  raw_implicit_assumptions :: "string list option"

record decomposition_reply =
  reply_claims :: "raw_claim list option"
  overall_assumptions :: "string list option"
  reasoning_chain :: "string list option"

fun read_claims :: "nat \<Rightarrow> raw_claim list \<Rightarrow> ClaimData list" where
  \<comment> \<open>the loop over \<open>enumerate(raw_claims)\<close>, from index \<open>i\<close>\<close>
  "read_claims i [] = []"
| "read_claims i (c # rest) =
     \<lparr> claim_id = or_default (raw_claim_id c) (''c'' @ str_nat (i + 1)),
       claim_text = or_default (raw_claim_text c) [],
       claim_type = or_default (raw_claim_type c) ''factual'',
       implicit_assumptions = or_default (raw_implicit_assumptions c) [] \<rparr>
     # read_claims (i + 1) rest"

text \<open>
  \<open>list(set(assumptions))\<close> leaves the order of the distinct assumptions open; the model
  keeps them in the order \<^const>\<open>remdups\<close> gives.
\<close>

definition decomposition_node ::
  "decomposition_reply llm_call \<Rightarrow> AnalysisState \<Rightarrow> AnalysisState" where
  "decomposition_node call state =
     (case call of
        ParseError \<Rightarrow>
          state\<lparr> claims := fallback_claim_extraction (answer state),
                 assumptions := [],
                 reasoning_steps := [],
                 errors := errors state
                   @ [(''decomposition'', ''LLM output parsing failed, using fallback'')] \<rparr>
      | Parsed result \<Rightarrow>
          (let cs = read_claims 0 (or_default (reply_claims result) []);
               cs' = (if cs = [] then fallback_claim_extraction (answer state) else cs);
               asms = or_default (overall_assumptions result) []
                        @ concat (map implicit_assumptions cs')
           in state\<lparr> claims := cs',
                     assumptions := remdups asms,
                     reasoning_steps := or_default (reasoning_chain result) [] \<rparr>)
      | Raised e \<Rightarrow>
          state\<lparr> claims := fallback_claim_extraction (answer state),
                 assumptions := [],
                 reasoning_steps := [],
                 errors := errors state @ [(''decomposition'', e)] \<rparr>)"

section \<open>Hallucination detector (detectors/hallucination.py)\<close>

text \<open>
  The \<open>findings\<close> of a signal are opaque records that differ from detector to detector;
  they are read here and not stored in the model's signal.
\<close>

record hallucination_finding =
  is_hallucinated :: "bool option"
  finding_claim_id :: "string option"
  finding_reason :: "string option"

record hallucination_reply =
  hallucination_detected :: "bool option"
  reply_confidence :: "real option"
  reply_severity :: "string option"
  reply_summary :: "string option"
  reply_findings :: "hallucination_finding list option"

definition create_default_signal :: FailureSignal where
  "create_default_signal =
     \<lparr> failure_type = ''hallucination'', detected = False, confidence = 0.0,
       severity = ''low'', evidence = [], related_claim_ids = [],
       explanation = ''Unable to analyze for hallucinations.'' \<rparr>"

definition nonempty_texts :: "(hallucination_finding \<Rightarrow> string option) \<Rightarrow> hallucination_finding list \<Rightarrow> string list" where
  \<comment> \<open>the two loops over the findings: of each finding flagged hallucinated, the field when it
     is a non-empty text\<close>
  "nonempty_texts field fs =
     filter (\<lambda>t. t \<noteq> [])
       (map (\<lambda>f. or_default (field f) [])
          (filter (\<lambda>f. or_default (is_hallucinated f) False) fs))"

definition hallucination_detector ::
  "hallucination_reply llm_call \<Rightarrow> AnalysisState \<Rightarrow> AnalysisState" where
  "hallucination_detector call state =
     (case call of
        ParseError \<Rightarrow> state\<lparr> hallucination_signal := Some create_default_signal \<rparr>
      | Parsed result \<Rightarrow>
          (let fs = or_default (reply_findings result) []
           in state\<lparr> hallucination_signal := Some
                \<lparr> failure_type = ''hallucination'',
                  detected = or_default (hallucination_detected result) False,
                  confidence = or_default (reply_confidence result) 0.0,
                  severity = or_default (reply_severity result) ''medium'',
                  evidence = nonempty_texts finding_reason fs,
                  related_claim_ids = nonempty_texts finding_claim_id fs,
                  explanation =
                    or_default (reply_summary result) ''No hallucination issues detected.'' \<rparr> \<rparr>)
      | Raised e \<Rightarrow>
          state\<lparr> hallucination_signal := Some create_default_signal,
                 errors := errors state @ [(''hallucination_detector'', e)] \<rparr>)"

section \<open>Recommendation node (recommendation.py)\<close>

record rec_template =
  t_title :: string
  t_description :: string
  t_implementation_hint :: "string option"
  t_priority :: int

definition RECOMMENDATIONS_DB :: "(string \<times> rec_template list) list" where
  "RECOMMENDATIONS_DB =
     [
      (''hallucination'',
       [
        \<lparr> t_title = ''Implement RAG with verified sources'',
          t_description = ''Add retrieval-augmented generation to ground responses in verified documents.'',
          t_implementation_hint = Some ''Use vector databases like ChromaDB/Pinecone with curated knowledge bases.'',
          t_priority = 1 \<rparr>,
        \<lparr> t_title = ''Add source citations requirement'',
          t_description = ''Require the LLM to cite sources for factual claims.'',
          t_implementation_hint = Some ''Include citation requirements in the system prompt.'',
          t_priority = 2 \<rparr>,
        \<lparr> t_title = ''Implement fact-checking pipeline'',
          t_description = ''Add a post-processing step to verify factual claims.'',
          t_implementation_hint = Some ''Use a separate verification model or knowledge graph queries.'',
          t_priority = 2 \<rparr>
       ]),
      (''logical_inconsistency'',
       [
        \<lparr> t_title = ''Add chain-of-thought prompting'',
          t_description = ''Require the model to show reasoning steps explicitly.'',
          t_implementation_hint = Some ''Use 'Let's think step by step' or similar CoT triggers.'',
          t_priority = 1 \<rparr>,
        \<lparr> t_title = ''Implement self-consistency checking'',
          t_description = ''Generate multiple responses and check for consistency.'',
          t_implementation_hint = Some ''Sample 3-5 responses and look for agreement.'',
          t_priority = 2 \<rparr>,
        \<lparr> t_title = ''Add logical validation layer'',
          t_description = ''Use a separate model to validate logical consistency.'',
          t_implementation_hint = Some ''Implement a critic model that checks reasoning chains.'',
          t_priority = 3 \<rparr>
       ]),
      (''missing_assumptions'',
       [
        \<lparr> t_title = ''Require explicit assumption listing'',
          t_description = ''Prompt the model to list all assumptions before answering.'',
          t_implementation_hint = Some ''Add 'First, list your assumptions:' to the prompt structure.'',
          t_priority = 1 \<rparr>,
        \<lparr> t_title = ''Implement clarification requests'',
          t_description = ''Allow the model to ask clarifying questions when information is missing.'',
          t_implementation_hint = Some ''Add logic to detect and handle clarification requests.'',
          t_priority = 2 \<rparr>,
        \<lparr> t_title = ''Provide comprehensive context'',
          t_description = ''Ensure all necessary context is included in the prompt.'',
          t_implementation_hint = Some ''Create context templates that capture required information.'',
          t_priority = 2 \<rparr>
       ]),
      (''overconfidence'',
       [
        \<lparr> t_title = ''Request confidence qualifiers'',
          t_description = ''Ask the model to express uncertainty when appropriate.'',
          t_implementation_hint = Some ''Add 'Express your confidence level' to prompts.'',
          t_priority = 1 \<rparr>,
        \<lparr> t_title = ''Implement calibration training'',
          t_description = ''Fine-tune or prompt-engineer for better calibrated confidence.'',
          t_implementation_hint = Some ''Use examples that demonstrate appropriate hedging.'',
          t_priority = 2 \<rparr>,
        \<lparr> t_title = ''Post-process absolute statements'',
          t_description = ''Add filters to catch and flag absolute language.'',
          t_implementation_hint = Some ''Use regex or NLP to detect 'always', 'never', etc.'',
          t_priority = 3 \<rparr>
       ]),
      (''scope_violation'',
       [
        \<lparr> t_title = ''Add scope constraints to prompts'',
          t_description = ''Explicitly define the scope of acceptable responses.'',
          t_implementation_hint = Some ''Include 'Only answer the specific question asked' in system prompt.'',
          t_priority = 1 \<rparr>,
        \<lparr> t_title = ''Implement response filtering'',
          t_description = ''Filter out tangential information from responses.'',
          t_implementation_hint = Some ''Use a summarization step focused on the original question.'',
          t_priority = 2 \<rparr>
       ]),
      (''underspecification'',
       [
        \<lparr> t_title = ''Implement ambiguity detection'',
          t_description = ''Detect ambiguous queries before processing.'',
          t_implementation_hint = Some ''Use a classifier to identify underspecified questions.'',
          t_priority = 1 \<rparr>,
        \<lparr> t_title = ''Add clarification workflow'',
          t_description = ''Implement a multi-turn clarification process.'',
          t_implementation_hint = Some ''Create a dialogue system for gathering missing information.'',
          t_priority = 2 \<rparr>,
        \<lparr> t_title = ''Provide default assumptions'',
          t_description = ''Define and communicate standard assumptions when info is missing.'',
          t_implementation_hint = Some ''Create domain-specific default assumption sets.'',
          t_priority = 3 \<rparr>
       ])
     ]"

definition severity_order :: "(string \<times> nat) list" where
  "severity_order = [(''critical'', 0), (''high'', 1), (''medium'', 2), (''low'', 3)]"

definition sort_by_severity :: "FailureSignal list \<Rightarrow> FailureSignal list" where
  \<comment> \<open>\<open>sorted(detected_failures, key=severity rank)\<close>: stable\<close>
  "sort_by_severity fs = sort_key (\<lambda>x. dict_get severity_order (severity x) 2) fs"

fun add_recs :: "string \<Rightarrow> rec_template list \<Rightarrow> nat \<Rightarrow> RecommendationData list" where
  \<comment> \<open>the inner loop over the entries kept for one failure type, the counter starting at \<open>n\<close>\<close>
  "add_recs ft [] n = []"
| "add_recs ft (r # rest) n =
     \<lparr> recommendation_id = ''r'' @ str_nat n,
       priority = t_priority r,
       rec_failure_type = ft,
       title = t_title r,
       description = t_description r,
       implementation_hint = t_implementation_hint r \<rparr>
     # add_recs ft rest (n + 1)"

fun rec_loop ::
  "FailureSignal list \<Rightarrow> string list \<Rightarrow> nat \<Rightarrow> RecommendationData list" where
  \<comment> \<open>the loop over \<open>sorted_failures\<close>, with \<open>seen_types\<close> and \<open>rec_id_counter\<close>\<close>
  "rec_loop [] seen n = []"
| "rec_loop (failure # rest) seen n =
     (let ft = failure_type failure
      in if ft \<in> set seen then rec_loop rest seen n
         else (let type_recs = take 2 (dict_get RECOMMENDATIONS_DB ft [])
               in add_recs ft type_recs n
                  @ rec_loop rest (ft # seen) (n + length type_recs)))"

definition predefined_recs :: "FailureSignal list \<Rightarrow> RecommendationData list" where
  \<comment> \<open>the predefined recommendations, after \<open>recommendations.sort(key=priority)\<close>\<close>
  "predefined_recs dfs = sort_key priority (rec_loop (sort_by_severity dfs) [] 1)"

record raw_recommendation =
  raw_recommendation_id :: "string option"
  raw_priority :: "int option"
  raw_failure_type :: "string option"
  raw_title :: "string option"
  raw_description :: "string option"
  raw_implementation_hint :: "string option"

definition read_recommendation :: "raw_recommendation \<Rightarrow> RecommendationData" where
  "read_recommendation r =
     \<lparr> recommendation_id = or_default (raw_recommendation_id r) ''rd1'',
       priority = or_default (raw_priority r) 3,
       rec_failure_type = or_default (raw_failure_type r) ''general'',
       title = or_default (raw_title r) ''Domain-specific recommendation'',
       description = or_default (raw_description r) [],
       implementation_hint = raw_implementation_hint r \<rparr>"

definition generate_domain_recommendations ::
  "raw_recommendation list option llm_call \<Rightarrow> string + RecommendationData list" where
  \<comment> \<open>\<open>Inl\<close> when the call raises; the reply is the value of its \<open>recommendations\<close> key\<close>
  "generate_domain_recommendations call =
     (case call of
        Raised e \<Rightarrow> Inl e
      | ParseError \<Rightarrow> Inr []
      | Parsed raw_recs \<Rightarrow> Inr (map read_recommendation (take 3 (or_default raw_recs []))))"

definition domain_recs ::
  "raw_recommendation list option llm_call \<Rightarrow> string \<Rightarrow> RecommendationData list" where
  \<comment> \<open>what the \<open>try\<close> block appends: nothing for the general domain or when the call raises\<close>
  "domain_recs call d =
     (if d \<noteq> ''general'' then
        (case generate_domain_recommendations call of Inl e \<Rightarrow> [] | Inr rs \<Rightarrow> rs)
      else [])"

definition recommendation_node ::
  "raw_recommendation list option llm_call \<Rightarrow> AnalysisState \<Rightarrow> AnalysisState" where
  "recommendation_node call state =
     (let dfs = detected_failures state
      in if dfs = [] then state\<lparr> recommendations := [] \<rparr>
         else state\<lparr> recommendations :=
                take 10 (predefined_recs dfs @ domain_recs call (domain state)) \<rparr>)"

fun first_occurrences :: "'a list \<Rightarrow> 'a list \<Rightarrow> 'a list" where
  \<comment> \<open>the elements of a list not yet seen, each once, in the order of their first
     occurrence\<close>
  "first_occurrences seen [] = []"
| "first_occurrences seen (x # xs) =
     (if x \<in> set seen then first_occurrences seen xs
      else x # first_occurrences (x # seen) xs)"

definition table_entries :: "string \<Rightarrow> (string \<times> int \<times> string \<times> string \<times> string option) list" where
  \<comment> \<open>the first two table entries of a failure type, as type, priority, title, description
     and hint\<close>
  "table_entries ft =
     map (\<lambda>t. (ft, t_priority t, t_title t, t_description t, t_implementation_hint t))
       (take 2 (dict_get RECOMMENDATIONS_DB ft []))"

definition rec_fields :: "RecommendationData \<Rightarrow> string \<times> int \<times> string \<times> string \<times> string option" where
  "rec_fields r =
     (rec_failure_type r, priority r, title r, description r, implementation_hint r)"

section \<open>Model client: one generation request (llm/client.py)\<close>

text \<open>
  What the HTTP layer does on one attempt, and the exceptions that can leave \<open>generate\<close>.
  The waits between attempts are not modelled; attempts are counted.
\<close>

datatype http_outcome =
    HttpResponse string    \<comment> \<open>a reply whose \<open>response\<close> field is the text\<close>
  | HttpTimeout            \<comment> \<open>\<open>httpx.TimeoutException\<close>\<close>
  | HttpConnectFailure     \<comment> \<open>\<open>httpx.ConnectError\<close>\<close>
  | HttpOtherFailure       \<comment> \<open>any other exception, a bad status among them\<close>

datatype exn =
    HttpxTimeoutException | HttpxConnectError
  | OllamaError | OllamaConnectionError | OllamaTimeoutError
  | RetryError | RecursionError

definition generate_body :: "http_outcome \<Rightarrow> exn + string" where
  \<comment> \<open>the body of \<open>generate\<close>: its \<open>try\<close> block and the three handlers\<close>
  "generate_body out =
     (case out of
        HttpResponse text \<Rightarrow> Inr text
      | HttpTimeout \<Rightarrow> Inl OllamaTimeoutError
      | HttpConnectFailure \<Rightarrow> Inl OllamaConnectionError
      | HttpOtherFailure \<Rightarrow> Inl OllamaError)"

definition retry_if_exception_type :: "exn \<Rightarrow> bool" where
  \<comment> \<open>the decorator's predicate: an instance of \<open>httpx.TimeoutException\<close> or
     \<open>httpx.ConnectError\<close>; the three Ollama exceptions derive from \<open>Exception\<close> only\<close>
  "retry_if_exception_type e = (e = HttpxTimeoutException \<or> e = HttpxConnectError)"

fun retrying :: "nat \<Rightarrow> (nat \<Rightarrow> http_outcome) \<Rightarrow> nat \<Rightarrow> (exn + string) \<times> nat" where
  \<comment> \<open>the decorator's loop with \<open>stop_after_attempt(3)\<close>: \<open>retrying left backend k\<close> makes
     attempt \<open>k\<close> with \<open>left\<close> further attempts allowed, and returns the outcome with the
     number of attempts made\<close>
  "retrying left backend k =
     (case generate_body (backend k) of
        Inr text \<Rightarrow> (Inr text, k)
      | Inl e \<Rightarrow>
          (if retry_if_exception_type e then
             (case left of
                0 \<Rightarrow> (Inl RetryError, k)
              | Suc left' \<Rightarrow> retrying left' backend (k + 1))
           else (Inl e, k)))"

definition generate :: "(nat \<Rightarrow> http_outcome) \<Rightarrow> (exn + string) \<times> nat" where
  \<comment> \<open>\<open>backend k\<close> is what the HTTP layer does on attempt \<open>k\<close>, counted from 1\<close>
  "generate backend = retrying 2 backend 1"

section \<open>Model client: structured output (llm/client.py)\<close>

datatype json =
    JNull | JBool bool | JNum real | JStr string
  | JArr "json list" | JObj "(string \<times> json) list"



















section \<open>The analysis graph (orchestrator.py)\<close>

text \<open>
  What a run takes from outside: the outcomes of the model calls of the nodes modelled
  above, and the two nodes that are not modelled (the parallel detectors and the explanation
  generator) as functions on the state.
\<close>

record Collaborators =
  precheck_call :: "precheck_reply llm_call"
  decomposition_call :: "decomposition_reply llm_call"
  parallel_detectors_node :: "AnalysisState \<Rightarrow> AnalysisState"
  explanation_node :: "AnalysisState \<Rightarrow> AnalysisState"
  recommendation_call :: "raw_recommendation list option llm_call"

datatype node =
    Precheck | EarlyExit | Decomposition | ParallelDetectors | Aggregation
  | RiskScoring | Explanation | Recommendation | Finalize

definition should_continue_after_precheck :: "AnalysisState \<Rightarrow> node" where
  "should_continue_after_precheck state =
     (if precheck_passed state then Decomposition else EarlyExit)"

fun successor :: "node \<Rightarrow> AnalysisState \<Rightarrow> node option" where
  \<comment> \<open>the edges of the graph; \<open>None\<close> is \<open>END\<close>\<close>
  "successor Precheck state = Some (should_continue_after_precheck state)"
| "successor EarlyExit state = None"
| "successor Decomposition state = Some ParallelDetectors"
| "successor ParallelDetectors state = Some Aggregation"
| "successor Aggregation state = Some RiskScoring"
| "successor RiskScoring state = Some Explanation"
| "successor Explanation state = Some Recommendation"
| "successor Recommendation state = Some Finalize"
| "successor Finalize state = None"

fun run_node :: "Collaborators \<Rightarrow> Settings \<Rightarrow> node \<Rightarrow> AnalysisState \<Rightarrow> AnalysisState" where
  \<comment> \<open>\<open>finalize_node\<close> only stamps the end time\<close>
  "run_node env settings Precheck state = precheck_node (precheck_call env) state"
| "run_node env settings EarlyExit state = early_exit_node state"
| "run_node env settings Decomposition state = decomposition_node (decomposition_call env) state"
| "run_node env settings ParallelDetectors state = parallel_detectors_node env state"
| "run_node env settings Aggregation state = aggregation_node settings state"
| "run_node env settings RiskScoring state = risk_scoring_node settings state"
| "run_node env settings Explanation state = explanation_node env state"
| "run_node env settings Recommendation state = recommendation_node (recommendation_call env) state"
| "run_node env settings Finalize state = state"

fun stages_left :: "node \<Rightarrow> nat" where
  "stages_left Precheck = 8"
| "stages_left Decomposition = 7"
| "stages_left ParallelDetectors = 6"
| "stages_left Aggregation = 5"
| "stages_left RiskScoring = 4"
| "stages_left Explanation = 3"
| "stages_left Recommendation = 2"
| "stages_left Finalize = 1"
| "stages_left EarlyExit = 0"

function run_from ::
  "Collaborators \<Rightarrow> Settings \<Rightarrow> node \<Rightarrow> AnalysisState \<Rightarrow> AnalysisState \<times> node list" where
  \<comment> \<open>runs the graph from a node to \<open>END\<close>: the final state and the nodes run, in order\<close>
  "run_from env settings n state =
     (let state' = run_node env settings n state
      in case successor n state' of
           None \<Rightarrow> (state', [n])
         | Some n' \<Rightarrow>
             (let (final, visited) = run_from env settings n' state'
              in (final, n # visited)))"
  by pat_completeness auto
termination
proof (relation "measure (\<lambda>(env, settings, n, state). stages_left n)")
  show "wf (measure (\<lambda>(env, settings, n, state). stages_left n))" by simp
next
  fix env :: Collaborators and settings :: Settings and n :: node and state state' :: AnalysisState
    and n' :: node
  assume "successor n state' = Some n'"
  then have "stages_left n' < stages_left n"
    by (cases n) (auto simp: should_continue_after_precheck_def split: if_splits)
  then show "((env, settings, n', state'), (env, settings, n, state))
      \<in> measure (\<lambda>(env, settings, n, state). stages_left n)"
    by simp
qed

definition run_analysis ::
  "Collaborators \<Rightarrow> Settings \<Rightarrow> string \<Rightarrow> string \<Rightarrow> string option \<Rightarrow> string
     \<Rightarrow> AnalysisState \<times> node list" where
  "run_analysis env settings q a c d =
     run_from env settings Precheck (create_initial_state q a c d)"

definition unreachable_backend :: Collaborators where
  \<comment> \<open>a run in which every model call raises and the unmodelled nodes change nothing\<close>
  "unreachable_backend =
     \<lparr> precheck_call = Raised ''unreachable'',
       decomposition_call = Raised ''unreachable'',
       parallel_detectors_node = (\<lambda>state. state),
       explanation_node = (\<lambda>state. state),
       recommendation_call = Raised ''unreachable'' \<rparr>"


section \<open>Aggregation: the retained signals\<close>

lemma filter_signals_fst:
  "fst (filter_signals t xs (dfs, fts)) = dfs @ filter (\<lambda>s. detected s \<and> confidence s \<ge> t) xs"
  by (induction xs arbitrary: dfs fts) auto

lemma detected_failures_aggregation:
  "detected_failures (aggregation_node settings state) =
     sort_by_confidence
       (filter (\<lambda>s. detected s \<and> confidence s \<ge> failure_confidence_threshold settings)
          (collect_signals state))"
proof -
  have "fst (filter_signals (failure_confidence_threshold settings) (collect_signals state) ([], []))
        = filter (\<lambda>s. detected s \<and> confidence s \<ge> failure_confidence_threshold settings)
            (collect_signals state)"
    by (simp add: filter_signals_fst)
  then show ?thesis
    by (simp add: aggregation_node_def Let_def split_beta)
qed

lemma failure_signals_aggregation:
  "failure_signals (aggregation_node settings state) = collect_signals state"
  by (simp add: aggregation_node_def Let_def split_beta)

lemma failure_detected_aggregation:
  "failure_detected (aggregation_node settings state)
     = (detected_failures (aggregation_node settings state) \<noteq> [])"
  by (simp add: aggregation_node_def Let_def split_beta)

lemma length_collect_signals: "length (collect_signals state) \<le> 6"
proof -
  have "length (collect_signals state)
        \<le> length [hallucination_signal state, logical_signal state, assumptions_signal state,
             overconfidence_signal state, scope_signal state, underspec_signal state]"
    unfolding collect_signals_def map_filter_def
    by (simp only: length_map length_filter_le)
  then show ?thesis by simp
qed

lemma collect_signals_slots:
  "collect_signals state =
     map the (filter (\<lambda>x. x \<noteq> None)
       [hallucination_signal state, logical_signal state, assumptions_signal state,
        overconfidence_signal state, scope_signal state, underspec_signal state])"
  by (simp add: collect_signals_def map_filter_def comp_def)

lemma in_present_slots:
  "s \<in> set (map the (filter (\<lambda>x. x \<noteq> None) slots)) \<longleftrightarrow> Some s \<in> set slots"
  by (induction slots) auto

text \<open>
  C2. The aggregator reads the six signal slots of the state and keeps those that are
  present, in the order of the slots, as \<open>failure_signals\<close>. A signal is in
  \<open>detected_failures\<close> iff it is in one of the six slots, its \<open>detected\<close> flag is true
  and its confidence is at least the configured threshold; each such signal is retained as
  often as it occurs, in descending order of confidence; every retained signal is one of
  the raw signals; and \<open>failure_detected\<close> is true iff the retained list is non-empty.
\<close>

theorem aggregation_retains_iff:
  "(s \<in> set (detected_failures (aggregation_node settings state))
      \<longleftrightarrow> (Some s \<in> set [hallucination_signal state, logical_signal state,
                           assumptions_signal state, overconfidence_signal state,
                           scope_signal state, underspec_signal state]
           \<and> detected s \<and> confidence s \<ge> failure_confidence_threshold settings))
   \<and> failure_signals (aggregation_node settings state)
       = map the (filter (\<lambda>x. x \<noteq> None)
           [hallucination_signal state, logical_signal state, assumptions_signal state,
            overconfidence_signal state, scope_signal state, underspec_signal state])
   \<and> length (failure_signals (aggregation_node settings state)) \<le> 6
   \<and> mset (detected_failures (aggregation_node settings state))
        = filter_mset (\<lambda>s. detected s \<and> confidence s \<ge> failure_confidence_threshold settings)
            (mset (failure_signals (aggregation_node settings state)))
   \<and> sorted (map (\<lambda>s. - confidence s) (detected_failures (aggregation_node settings state)))
   \<and> set (detected_failures (aggregation_node settings state))
        \<subseteq> set (failure_signals (aggregation_node settings state))
   \<and> (failure_detected (aggregation_node settings state)
        \<longleftrightarrow> detected_failures (aggregation_node settings state) \<noteq> [])"
proof -
  let ?P = "\<lambda>s. detected s \<and> confidence s \<ge> failure_confidence_threshold settings"
  let ?slots = "[hallucination_signal state, logical_signal state, assumptions_signal state,
                 overconfidence_signal state, scope_signal state, underspec_signal state]"
  have d: "detected_failures (aggregation_node settings state)
           = sort_by_confidence (filter ?P (collect_signals state))"
    by (rule detected_failures_aggregation)
  have f: "failure_signals (aggregation_node settings state)
           = map the (filter (\<lambda>x. x \<noteq> None) ?slots)"
    by (simp only: failure_signals_aggregation collect_signals_slots)
  have c: "collect_signals state = map the (filter (\<lambda>x. x \<noteq> None) ?slots)"
    by (rule collect_signals_slots)
  have m: "mset (sort_by_confidence (filter ?P (collect_signals state)))
           = filter_mset ?P (mset (collect_signals state))"
    by (simp add: sort_by_confidence_def)
  have s: "set (sort_by_confidence (filter ?P (collect_signals state)))
           = {x \<in> set (collect_signals state). ?P x}"
    by (simp add: sort_by_confidence_def)
  have o: "sorted (map (\<lambda>s. - confidence s)
             (sort_by_confidence (filter ?P (collect_signals state))))"
    by (simp add: sort_by_confidence_def)
  have i: "s \<in> set (collect_signals state) \<longleftrightarrow> Some s \<in> set ?slots"
    unfolding c by (rule in_present_slots)
  have l: "length (collect_signals state) \<le> 6" by (rule length_collect_signals)
  have e: "failure_detected (aggregation_node settings state)
        \<longleftrightarrow> detected_failures (aggregation_node settings state) \<noteq> []"
    by (rule failure_detected_aggregation)
  have 1: "s \<in> set (detected_failures (aggregation_node settings state))
      \<longleftrightarrow> (Some s \<in> set ?slots \<and> ?P s)"
    unfolding d s using i by blast
  have 3: "length (failure_signals (aggregation_node settings state)) \<le> 6"
    using l by (simp only: failure_signals_aggregation)
  have 4: "mset (detected_failures (aggregation_node settings state))
        = filter_mset ?P (mset (failure_signals (aggregation_node settings state)))"
    unfolding d using m by (simp only: failure_signals_aggregation)
  have 5: "sorted (map (\<lambda>s. - confidence s) (detected_failures (aggregation_node settings state)))"
    unfolding d by (rule o)
  have 6: "set (detected_failures (aggregation_node settings state))
        \<subseteq> set (failure_signals (aggregation_node settings state))"
    unfolding d s by (auto simp only: failure_signals_aggregation)
  show ?thesis
    using 1 f 3 4 5 6 e by (intro conjI)
qed

theorem aggregation_retains_iff_witness:
  "detected_failures (aggregation_node default_settings
     ((create_initial_state ''q'' ''a'' None ''general'')
        \<lparr> hallucination_signal := Some (signal ''hallucination'' True 0.75 ''high''),
          logical_signal := Some (signal ''logical_inconsistency'' True 0.25 ''high''),
          overconfidence_signal := Some (signal ''overconfidence'' True 1 ''low''),
          scope_signal := Some (signal ''scope_violation'' False 1 ''low'') \<rparr>))
   = [signal ''overconfidence'' True 1 ''low'', signal ''hallucination'' True 0.75 ''high'']
   \<and> failure_signals (aggregation_node default_settings
     ((create_initial_state ''q'' ''a'' None ''general'')
        \<lparr> hallucination_signal := Some (signal ''hallucination'' True 0.75 ''high''),
          logical_signal := Some (signal ''logical_inconsistency'' True 0.25 ''high''),
          overconfidence_signal := Some (signal ''overconfidence'' True 1 ''low''),
          scope_signal := Some (signal ''scope_violation'' False 1 ''low'') \<rparr>))
   = [signal ''hallucination'' True 0.75 ''high'',
      signal ''logical_inconsistency'' True 0.25 ''high'',
      signal ''overconfidence'' True 1 ''low'',
      signal ''scope_violation'' False 1 ''low'']"
proof -
  let ?s = "(create_initial_state ''q'' ''a'' None ''general'')
        \<lparr> hallucination_signal := Some (signal ''hallucination'' True 0.75 ''high''),
          logical_signal := Some (signal ''logical_inconsistency'' True 0.25 ''high''),
          overconfidence_signal := Some (signal ''overconfidence'' True 1 ''low''),
          scope_signal := Some (signal ''scope_violation'' False 1 ''low'') \<rparr>"
  have f: "failure_signals (aggregation_node default_settings ?s)
      = map the (filter (\<lambda>x. x \<noteq> None)
           [hallucination_signal ?s, logical_signal ?s, assumptions_signal ?s,
            overconfidence_signal ?s, scope_signal ?s, underspec_signal ?s])"
    using aggregation_retains_iff [of _ default_settings ?s] by blast
  have f': "failure_signals (aggregation_node default_settings ?s)
      = [signal ''hallucination'' True 0.75 ''high'',
         signal ''logical_inconsistency'' True 0.25 ''high'',
         signal ''overconfidence'' True 1 ''low'',
         signal ''scope_violation'' False 1 ''low'']"
    unfolding f by (simp add: create_initial_state_def)
  have d: "detected_failures (aggregation_node default_settings ?s)
      = [signal ''overconfidence'' True 1 ''low'', signal ''hallucination'' True 0.75 ''high'']"
    by (simp add: detected_failures_aggregation collect_signals_slots create_initial_state_def
        sort_by_confidence_def default_settings_def signal_def)
  show ?thesis using d f' by simp
qed

section \<open>Floating point: evaluation\<close>

declare expo_up.simps [simp del]
declare expo_down.simps [simp del]

lemma dbl_literals:
  "dbl 0.85 = 7656119366529843 / 2 ^ 53"
  "dbl 0.35 = 3152519739159347 / 2 ^ 53"
  "dbl 0.446 = 8034421735228965 / 2 ^ 54"
  "dbl 0.52 = 1170935903116329 / 2 ^ 51"
  "dbl 0.045 = 3242591731706757 / 2 ^ 56"
  "dbl 0.0437 = 3148916859457451 / 2 ^ 56"
  "dbl 0.9984 = 4496393867966703 / 2 ^ 52"
  "dbl 0.6 = 5404319552844595 / 2 ^ 53"
  "dbl 0.1 = 3602879701896397 / 2 ^ 55"
  "dbl 0.10 = 3602879701896397 / 2 ^ 55"
  "dbl 1.3 = 5854679515581645 / 2 ^ 52"
  by (simp_all add: dbl_def round_to_double_def exponent_of_def expo_down.simps expo_up.simps
      pow2_def round_half_even_def Let_def)

lemma dbl_exact:
  "dbl 0.25 = 0.25" "dbl 0.5 = 0.5" "dbl 0.75 = 0.75" "dbl 1.0 = 1.0" "dbl 1.5 = 1.5"
  "dbl 2.0 = 2.0"
  by (simp_all add: dbl_def round_to_double_def exponent_of_def expo_down.simps expo_up.simps
      pow2_def round_half_even_def Let_def)

section \<open>Risk scoring: helper facts\<close>

lemma risk_loop_eq:
  "risk_loop st dm fs (tot, cfs) =
     (foldl fadd tot (map (\<lambda>f. fst (factor_of st dm f)) fs),
      cfs @ map (\<lambda>f. snd (factor_of st dm f)) fs)"
  by (induction fs arbitrary: tot cfs) (auto simp: split_beta Let_def)

lemma fst_factor_of:
  "fst (factor_of st dm f) =
     fmul (fmul (fmul (Fin (confidence f))
                   (Fin (dict_get (failure_weights st) (failure_type f) (dbl 0.1))))
             (Fin (dict_get severity_multipliers (severity f) 0.5)))
       (Fin dm)"
  by (simp add: factor_of_def Let_def)

lemma contribution_factor_of:
  "contribution (snd (factor_of st dm f)) = py_round 4 (fst (factor_of st dm f))"
  by (simp add: factor_of_def Let_def)

lemma total_risk_fold:
  "total_risk st state =
     foldl fadd (Fin 0.0)
       (map (\<lambda>f. fmul (fmul (fmul (Fin (confidence f))
                     (Fin (dict_get (failure_weights st) (failure_type f) (dbl 0.1))))
               (Fin (dict_get severity_multipliers (severity f) 0.5)))
         (Fin (dict_get (domain_multipliers st) (domain state) 1.0)))
          (detected_failures state))"
  by (simp add: total_risk_def risk_loop_eq fst_factor_of)

lemma risk_score_node:
  "risk_score (risk_scoring_node st state) = py_round 3 (capped_risk st state)"
  by (simp add: risk_scoring_node_def capped_risk_def total_risk_def Let_def split_beta)


lemma contributing_factors_node:
  "map contribution (contributing_factors (risk_scoring_node st state)) =
     map (\<lambda>f. py_round 4
            (fmul (fmul (fmul (Fin (confidence f))
                     (Fin (dict_get (failure_weights st) (failure_type f) (dbl 0.1))))
               (Fin (dict_get severity_multipliers (severity f) 0.5)))
         (Fin (dict_get (domain_multipliers st) (domain state) 1.0))))
       (detected_failures state)"
  by (simp add: risk_scoring_node_def Let_def split_beta risk_loop_eq contribution_factor_of
      fst_factor_of comp_def)

lemma severity_multipliers_table:
  "dict_get severity_multipliers ''low'' d = 0.25"
  "dict_get severity_multipliers ''medium'' d = 0.5"
  "dict_get severity_multipliers ''high'' d = 0.75"
  "dict_get severity_multipliers ''critical'' d = 1.0"
  by (simp_all add: severity_multipliers_def dict_get_def)

lemma default_weights_table:
  "dict_get (failure_weights default_settings) ''hallucination'' d = dbl 0.35"
  "dict_get (failure_weights default_settings) ''logical_inconsistency'' d = 0.25"
  "dict_get (failure_weights default_settings) ''missing_assumptions'' d = dbl 0.20"
  "dict_get (failure_weights default_settings) ''overconfidence'' d = dbl 0.10"
  "dict_get (failure_weights default_settings) ''scope_violation'' d = dbl 0.05"
  "dict_get (failure_weights default_settings) ''underspecification'' d = dbl 0.05"
  by (simp_all add: failure_weights_def default_settings_def dict_get_def)

lemma default_multipliers_table:
  "dict_get (domain_multipliers default_settings) ''general'' d = 1.0"
  "dict_get (domain_multipliers default_settings) ''finance'' d = 1.5"
  "dict_get (domain_multipliers default_settings) ''medical'' d = 2.0"
  "dict_get (domain_multipliers default_settings) ''legal'' d = dbl 1.8"
  "dict_get (domain_multipliers default_settings) ''code'' d = dbl 1.3"
  by (simp_all add: domain_multipliers_def default_settings_def dict_get_def)

lemma state_with_simps:
  "detected_failures (state_with d fs) = fs" "domain (state_with d fs) = d"
  by (simp_all add: state_with_def create_initial_state_def)

lemma signal_simps:
  "failure_type (signal ft d c sev) = ft" "detected (signal ft d c sev) = d"
  "confidence (signal ft d c sev) = c" "severity (signal ft d c sev) = sev"
  by (simp_all add: signal_def)

lemmas float_eval =
  fmul_def fadd_def flt_def pymin_def py_round_def round_to_double_def exponent_of_def
  expo_down.simps expo_up.simps pow2_def round_half_even_def Let_def

lemmas risk_tables =
  state_with_simps signal_simps default_weights_table default_multipliers_table
  severity_multipliers_table

lemma medical_example_total:
  "total_risk default_settings
     (state_with ''medical'' [signal ''hallucination'' True (dbl 0.85) ''high''])
   = Fin (8038925334856335 / 2 ^ 54)"
  unfolding total_risk_fold risk_tables list.map foldl.simps dbl_literals
  by (simp add: float_eval)

lemma medical_example:
  "risk_score (risk_scoring_node default_settings
     (state_with ''medical'' [signal ''hallucination'' True (dbl 0.85) ''high'']))
   = Fin (dbl 0.446)"
  unfolding risk_score_node capped_risk_def medical_example_total
  unfolding dbl_literals
  by (simp add: float_eval)


lemma half_even_example_total:
  "total_risk default_settings
     (state_with ''general'' [signal ''hallucination'' True (dbl 0.52) ''low''])
   = Fin (3278620528725721 / 2 ^ 56)"
  unfolding total_risk_fold risk_tables list.map foldl.simps dbl_literals
  by (simp add: float_eval)

lemma half_even_example:
  "risk_score (risk_scoring_node default_settings
     (state_with ''general'' [signal ''hallucination'' True (dbl 0.52) ''low'']))
   = Fin (dbl 0.045)"
  unfolding risk_score_node capped_risk_def half_even_example_total
  unfolding dbl_literals
  by (simp add: float_eval)

lemma contribution_example:
  "map contribution (contributing_factors (risk_scoring_node default_settings
     (state_with ''general'' [signal ''hallucination'' True 0.5 ''low''])))
   = [Fin (dbl 0.0437)]"
  unfolding contributing_factors_node risk_tables list.map dbl_literals
  by (simp add: float_eval)

lemma capped_example_total:
  "total_risk default_settings
     (state_with ''medical''
        [signal ''hallucination'' True 1.0 ''critical'',
         signal ''logical_inconsistency'' True 1.0 ''critical'',
         signal ''overconfidence'' True 0.5 ''critical'']) = Fin (dbl 1.3)"
  unfolding total_risk_fold risk_tables list.map foldl.simps dbl_literals
  by (simp add: float_eval)




lemma py_round_3_one: "py_round 3 (Fin 1.0) = Fin 1.0"
  by (simp add: float_eval)

lemma pymin_above_one: "flt (Fin 1.0) a \<Longrightarrow> pymin a (Fin 1.0) = Fin 1.0"
  by (simp add: pymin_def)


text \<open>
  C1. For every list of retained failures and every domain, the contribution of a failure
  is the floating-point product confidence times type weight times severity multiplier
  times domain multiplier, taken from left to right (an unknown type weighs 0.1, an unknown
  severity 0.5, an unknown domain 1.0), the severity multipliers being low 0.25, medium
  0.5, high 0.75, critical 1.0; the total risk is the floating-point sum of the
  contributions in the order of the list, from 0.0; each contribution is recorded in the
  breakdown, rounded to four decimals; the risk score is the total capped at 1.0 by
  \<open>min\<close>, with no renormalisation, and is stored rounded to three decimals. One retained
  hallucination signal of confidence 0.85 and severity high in the medical domain (weight
  0.35, multiplier 2.0) gives 0.446, and retained signals whose contributions sum to 1.3,
  or to anything above 1.0, give 1.0. A hallucination signal of confidence 0.52 and
  severity low in the general domain gives 0.045, and one of confidence 0.5 has the
  recorded contribution 0.0437.
\<close>

theorem risk_score_formula:
  "total_risk settings state =
     foldl fadd (Fin 0.0)
       (map (\<lambda>f. fmul (fmul (fmul (Fin (confidence f))
                     (Fin (dict_get (failure_weights settings) (failure_type f) (dbl 0.1))))
               (Fin (dict_get severity_multipliers (severity f) 0.5)))
         (Fin (dict_get (domain_multipliers settings) (domain state) 1.0)))
          (detected_failures state))
   \<and> risk_score (risk_scoring_node settings state)
       = py_round 3 (pymin (total_risk settings state) (Fin 1.0))
   \<and> map contribution (contributing_factors (risk_scoring_node settings state)) =
       map (\<lambda>f. py_round 4
              (fmul (fmul (fmul (Fin (confidence f))
                       (Fin (dict_get (failure_weights settings) (failure_type f) (dbl 0.1))))
                 (Fin (dict_get severity_multipliers (severity f) 0.5)))
           (Fin (dict_get (domain_multipliers settings) (domain state) 1.0))))
         (detected_failures state)
   \<and> map_of severity_multipliers =
       [''low'' \<mapsto> 0.25, ''medium'' \<mapsto> 0.5, ''high'' \<mapsto> 0.75, ''critical'' \<mapsto> 1.0]
   \<and> dict_get (failure_weights default_settings) ''hallucination'' (dbl 0.1) = dbl 0.35
   \<and> dict_get (domain_multipliers default_settings) ''medical'' 1.0 = 2.0
   \<and> risk_score (risk_scoring_node default_settings
         (state_with ''medical'' [signal ''hallucination'' True (dbl 0.85) ''high'']))
       = Fin (dbl 0.446)
   \<and> risk_score (risk_scoring_node default_settings
         (state_with ''general'' [signal ''hallucination'' True (dbl 0.52) ''low'']))
       = Fin (dbl 0.045)
   \<and> map contribution (contributing_factors (risk_scoring_node default_settings
         (state_with ''general'' [signal ''hallucination'' True 0.5 ''low''])))
       = [Fin (dbl 0.0437)]
   \<and> (total_risk settings state = Fin (dbl 1.3)
        \<longrightarrow> risk_score (risk_scoring_node settings state) = Fin 1.0)
   \<and> (flt (Fin 1.0) (total_risk settings state)
        \<longrightarrow> risk_score (risk_scoring_node settings state) = Fin 1.0)"
proof -
  have sc: "risk_score (risk_scoring_node settings state)
       = py_round 3 (pymin (total_risk settings state) (Fin 1.0))"
    unfolding risk_score_node capped_risk_def ..
  have tab: "map_of severity_multipliers =
       [''low'' \<mapsto> 0.25, ''medium'' \<mapsto> 0.5, ''high'' \<mapsto> 0.75, ''critical'' \<mapsto> 1.0]"
    by (rule ext) (simp add: severity_multipliers_def)
  have above: "risk_score (risk_scoring_node settings state) = Fin 1.0"
    if "flt (Fin 1.0) (total_risk settings state)"
    unfolding sc pymin_above_one [OF that] by (rule py_round_3_one)
  have lit: "flt (Fin 1.0) (Fin (dbl 1.3))"
    unfolding dbl_literals by (simp add: flt_def)
  have over: "risk_score (risk_scoring_node settings state) = Fin 1.0"
    if "total_risk settings state = Fin (dbl 1.3)"
    using above lit that by simp
  show ?thesis
    using total_risk_fold [of settings state] sc contributing_factors_node [of settings state]
      tab default_weights_table(1) [of "dbl 0.1"] default_multipliers_table(3) [of "1.0"]
      medical_example half_even_example contribution_example over above
    by (intro conjI impI)
qed

theorem risk_score_formula_witness:
  "total_risk default_settings
     (state_with ''medical''
        [signal ''hallucination'' True 1.0 ''critical'',
         signal ''logical_inconsistency'' True 1.0 ''critical'',
         signal ''overconfidence'' True 0.5 ''critical'']) = Fin (dbl 1.3)
   \<and> flt (Fin 1.0) (total_risk default_settings
     (state_with ''medical''
        [signal ''hallucination'' True 1.0 ''critical'',
         signal ''logical_inconsistency'' True 1.0 ''critical'',
         signal ''overconfidence'' True 0.5 ''critical'']))
   \<and> risk_score (risk_scoring_node default_settings
         (state_with ''medical''
            [signal ''hallucination'' True 1.0 ''critical'',
             signal ''logical_inconsistency'' True 1.0 ''critical'',
             signal ''overconfidence'' True 0.5 ''critical''])) = Fin 1.0"
proof -
  let ?s = "state_with ''medical''
        [signal ''hallucination'' True 1.0 ''critical'',
         signal ''logical_inconsistency'' True 1.0 ''critical'',
         signal ''overconfidence'' True 0.5 ''critical'']"
  have t: "total_risk default_settings ?s = Fin (dbl 1.3)" by (rule capped_example_total)
  have l: "flt (Fin 1.0) (total_risk default_settings ?s)"
    unfolding t dbl_literals by (simp add: flt_def)
  have "total_risk default_settings ?s = Fin (dbl 1.3)
        \<longrightarrow> risk_score (risk_scoring_node default_settings ?s) = Fin 1.0"
    using risk_score_formula [of default_settings ?s] by blast
  then show ?thesis using t l by blast
qed




section \<open>Precheck and early exit\<close>

declare run_from.simps [simp del]

lemma run_from_early_exit:
  "run_from env settings EarlyExit state = (early_exit_node state, [EarlyExit])"
  by (subst run_from.simps) simp

lemma run_from_rejected:
  assumes "\<not> precheck_passed (precheck_node (precheck_call env) state)"
  shows "run_from env settings Precheck state =
           (early_exit_node (precheck_node (precheck_call env) state), [Precheck, EarlyExit])"
  using assms
  by (subst run_from.simps)
    (simp add: should_continue_after_precheck_def run_from_early_exit)

lemma initial_state_inputs:
  "question (create_initial_state q a c d) = q" "answer (create_initial_state q a c d) = a"
  by (simp_all add: create_initial_state_def)

lemma precheck_empty_answer:
  assumes "strip (question state) \<noteq> []" "strip (answer state) = []"
  shows "precheck_node call state =
           state\<lparr> precheck_passed := False,
                  precheck_failure_reason := Some ''Answer is empty'',
                  answer_type := ''empty'' \<rparr>"
  using assms by (simp add: precheck_node_def Let_def)

lemma precheck_empty_question:
  assumes "strip (question state) = []"
  shows "precheck_node call state =
           state\<lparr> precheck_passed := False,
                  precheck_failure_reason := Some ''Question is empty'',
                  answer_type := ''invalid'' \<rparr>"
  using assms by (simp add: precheck_node_def Let_def)

lemma contains_answer_is_empty:
  "contains ''Analysis skipped: Answer is empty'' ''Answer is empty''"
  by simp

lemma not_contains_answer_is_empty:
  "\<not> contains ''Analysis skipped: Question is empty'' ''Answer is empty''"
  by simp

text \<open>
  C8, as the code has it. For every request whose question is not empty and whose answer is
  empty after stripping, precheck rejects with the reason "Answer is empty" and the run
  takes the early exit: only the precheck and early-exit nodes run, and the final state has
  no failure detected, risk score 0.0, risk category "low", no recommendations and the
  explanation "Analysis skipped: Answer is empty".
\<close>

theorem early_exit_on_empty_answer:
  assumes "strip q \<noteq> []" and "strip a = []"
  shows "snd (run_analysis env settings q a c d) = [Precheck, EarlyExit]
    \<and> \<not> precheck_passed (fst (run_analysis env settings q a c d))
    \<and> precheck_failure_reason (fst (run_analysis env settings q a c d)) = Some ''Answer is empty''
    \<and> \<not> failure_detected (fst (run_analysis env settings q a c d))
    \<and> risk_score (fst (run_analysis env settings q a c d)) = Fin 0.0
    \<and> risk_level (fst (run_analysis env settings q a c d)) = ''low''
    \<and> recommendations (fst (run_analysis env settings q a c d)) = []
    \<and> st_explanation (fst (run_analysis env settings q a c d))
        = ''Analysis skipped: Answer is empty''
    \<and> contains (st_explanation (fst (run_analysis env settings q a c d))) ''Answer is empty''"
proof -
  let ?s0 = "create_initial_state q a c d"
  have p: "precheck_node (precheck_call env) ?s0 =
           ?s0\<lparr> precheck_passed := False,
                 precheck_failure_reason := Some ''Answer is empty'',
                 answer_type := ''empty'' \<rparr>"
    using assms by (intro precheck_empty_answer) (simp_all add: initial_state_inputs)
  have r: "run_analysis env settings q a c d =
           (early_exit_node (precheck_node (precheck_call env) ?s0), [Precheck, EarlyExit])"
    unfolding run_analysis_def by (rule run_from_rejected) (simp add: p)
  have e: "st_explanation (early_exit_node (precheck_node (precheck_call env) ?s0))
           = ''Analysis skipped: Answer is empty''"
    unfolding p by (simp add: early_exit_node_def py_str_opt_def)
  show ?thesis
    unfolding r fst_conv snd_conv e
    using contains_answer_is_empty
    by (simp add: p early_exit_node_def)
qed

theorem early_exit_on_empty_answer_witness:
  "strip ''What is 2+2?'' \<noteq> [] \<and> strip ''  '' = []
   \<and> snd (run_analysis unreachable_backend default_settings ''What is 2+2?'' ''  '' None ''general'')
       = [Precheck, EarlyExit]
   \<and> st_explanation
       (fst (run_analysis unreachable_backend default_settings ''What is 2+2?'' ''  '' None ''general''))
       = ''Analysis skipped: Answer is empty''"
proof -
  have q: "strip ''What is 2+2?'' \<noteq> []" by (simp add: strip_def is_space_def)
  have a: "strip ''  '' = []" by (simp add: strip_def is_space_def)
  show ?thesis
    using q a early_exit_on_empty_answer [OF q a, of unreachable_backend default_settings None "''general''"]
    by simp
qed

text \<open>
  C8, as the claim states it, fails when the question is empty too: the question is checked
  first, the reason is "Question is empty", and the explanation does not contain "Answer
  is empty".
\<close>

theorem empty_question_hides_empty_answer:
  "strip [] = []
   \<and> precheck_failure_reason
       (fst (run_analysis unreachable_backend default_settings [] [] None ''general''))
       = Some ''Question is empty''
   \<and> st_explanation
       (fst (run_analysis unreachable_backend default_settings [] [] None ''general''))
       = ''Analysis skipped: Question is empty''
   \<and> \<not> contains
       (st_explanation (fst (run_analysis unreachable_backend default_settings [] [] None ''general'')))
       ''Answer is empty''"
proof -
  let ?s0 = "create_initial_state [] [] None ''general''"
  let ?env = unreachable_backend
  have s: "strip [] = []" by (simp add: strip_def)
  have p: "precheck_node (precheck_call ?env) ?s0 =
           ?s0\<lparr> precheck_passed := False,
                 precheck_failure_reason := Some ''Question is empty'',
                 answer_type := ''invalid'' \<rparr>"
    by (intro precheck_empty_question) (simp add: initial_state_inputs s)
  have r: "run_analysis ?env default_settings [] [] None ''general'' =
           (early_exit_node (precheck_node (precheck_call ?env) ?s0), [Precheck, EarlyExit])"
    unfolding run_analysis_def by (rule run_from_rejected) (simp add: p)
  have e: "st_explanation (early_exit_node (precheck_node (precheck_call ?env) ?s0))
           = ''Analysis skipped: Question is empty''"
    unfolding p by (simp add: early_exit_node_def py_str_opt_def)
  show ?thesis
    unfolding r fst_conv e
    using s not_contains_answer_is_empty
    by (simp add: p early_exit_node_def)
qed


lemma precheck_short_refusal:
  assumes "strip (question state) \<noteq> []"
    and "is_refusal (strip (answer state))"
    and "length (strip (answer state)) < 200"
  shows "precheck_node call state =
           state\<lparr> precheck_passed := True,
                  precheck_failure_reason := None,
                  answer_type := ''refusal'' \<rparr>"
proof -
  have "strip (answer state) \<noteq> []"
    using assms(2) by (auto simp: is_refusal_def refusal_patterns_def lower_def)
  then show ?thesis
    using assms by (simp add: precheck_node_def Let_def)
qed

lemma precheck_error_reason:
  assumes "precheck_failure_reason (precheck_node call state)
             = Some ''Answer appears to be an error message''"
  shows "\<not> (is_refusal (strip (answer state)) \<and> length (strip (answer state)) < 200)"
proof
  assume sr: "is_refusal (strip (answer state)) \<and> length (strip (answer state)) < 200"
  show False
  proof (cases "strip (question state) = []")
    case True
    then show False using assms by (simp add: precheck_empty_question)
  next
    case False
    then show False using assms sr by (simp add: precheck_short_refusal)
  qed
qed

text \<open>
  C10, as the code has it. When the question is not empty after stripping, an answer whose
  stripped, lowercased text contains a refusal pattern and an error pattern and whose
  stripped length is under 200 passes precheck, is classified "refusal" and goes on to
  decomposition; and whenever precheck rejects with the reason "Answer appears to be an
  error message", no short refusal was matched.
\<close>

theorem refusal_before_error:
  "(strip (question state) \<noteq> []
      \<and> is_refusal (strip (answer state)) \<and> is_error (strip (answer state))
      \<and> length (strip (answer state)) < 200
    \<longrightarrow> precheck_passed (precheck_node call state)
        \<and> answer_type (precheck_node call state) = ''refusal''
        \<and> precheck_failure_reason (precheck_node call state) = None
        \<and> should_continue_after_precheck (precheck_node call state) = Decomposition)
   \<and> (precheck_failure_reason (precheck_node call state)
         = Some ''Answer appears to be an error message''
    \<longrightarrow> \<not> (is_refusal (strip (answer state)) \<and> length (strip (answer state)) < 200))"
proof -
  have a: "precheck_passed (precheck_node call state)
        \<and> answer_type (precheck_node call state) = ''refusal''
        \<and> precheck_failure_reason (precheck_node call state) = None
        \<and> should_continue_after_precheck (precheck_node call state) = Decomposition"
    if "strip (question state) \<noteq> []" "is_refusal (strip (answer state))"
      "length (strip (answer state)) < 200"
    by (simp add: precheck_short_refusal [OF that] should_continue_after_precheck_def)
  show ?thesis
    using a precheck_error_reason [of call state] by blast
qed

lemma refusal_example_facts:
  "strip ''I cannot help. Error: failed to load.'' = ''I cannot help. Error: failed to load.''"
  "is_refusal ''I cannot help. Error: failed to load.''"
  "is_error ''I cannot help. Error: failed to load.''"
  by (simp_all add: strip_def is_space_def is_refusal_def is_error_def refusal_patterns_def
      error_patterns_def lower_def lower_char_def)

theorem refusal_before_error_witness:
  "strip ''Why?'' \<noteq> []
   \<and> is_refusal (strip ''I cannot help. Error: failed to load.'')
   \<and> is_error (strip ''I cannot help. Error: failed to load.'')
   \<and> length (strip ''I cannot help. Error: failed to load.'') < 200
   \<and> precheck_passed (precheck_node (Raised ''unreachable'')
        (create_initial_state ''Why?'' ''I cannot help. Error: failed to load.'' None ''general''))
   \<and> answer_type (precheck_node (Raised ''unreachable'')
        (create_initial_state ''Why?'' ''I cannot help. Error: failed to load.'' None ''general''))
       = ''refusal''
   \<and> precheck_failure_reason (precheck_node (Raised ''unreachable'')
        (create_initial_state ''Why?'' ''Error: failed to load the model.'' None ''general''))
       = Some ''Answer appears to be an error message''
   \<and> \<not> (is_refusal (strip ''Error: failed to load the model.'')
         \<and> length (strip ''Error: failed to load the model.'') < 200)"
proof -
  let ?s = "create_initial_state ''Why?'' ''I cannot help. Error: failed to load.'' None ''general''"
  let ?t = "create_initial_state ''Why?'' ''Error: failed to load the model.'' None ''general''"
  have q: "strip ''Why?'' \<noteq> []" by (simp add: strip_def is_space_def)
  have h: "strip (question ?s) \<noteq> []
      \<and> is_refusal (strip (answer ?s)) \<and> is_error (strip (answer ?s))
      \<and> length (strip (answer ?s)) < 200"
    using q by (simp add: initial_state_inputs refusal_example_facts)
  have e: "precheck_failure_reason (precheck_node (Raised ''unreachable'') ?t)
       = Some ''Answer appears to be an error message''"
    by (simp add: precheck_node_def Let_def initial_state_inputs strip_def is_space_def
        is_refusal_def is_error_def refusal_patterns_def error_patterns_def lower_def
        lower_char_def create_initial_state_def)
  show ?thesis
    using h e refusal_before_error [of ?s "Raised ''unreachable''"]
      refusal_before_error [of ?t "Raised ''unreachable''"]
    by (simp add: initial_state_inputs)
qed

text \<open>
  C10, as the claim states it, fails when the question is empty: the same short answer with
  a refusal pattern and an error pattern is then rejected with the reason "Question is
  empty" and is not classified "refusal".
\<close>

theorem refusal_with_empty_question_rejected:
  "is_refusal (strip ''I cannot help. Error: failed to load.'')
   \<and> is_error (strip ''I cannot help. Error: failed to load.'')
   \<and> length (strip ''I cannot help. Error: failed to load.'') < 200
   \<and> \<not> precheck_passed (precheck_node (Raised ''unreachable'')
        (create_initial_state [] ''I cannot help. Error: failed to load.'' None ''general''))
   \<and> answer_type (precheck_node (Raised ''unreachable'')
        (create_initial_state [] ''I cannot help. Error: failed to load.'' None ''general''))
       = ''invalid''
   \<and> precheck_failure_reason (precheck_node (Raised ''unreachable'')
        (create_initial_state [] ''I cannot help. Error: failed to load.'' None ''general''))
       = Some ''Question is empty''"
proof -
  let ?s = "create_initial_state [] ''I cannot help. Error: failed to load.'' None ''general''"
  have "strip (question ?s) = []" by (simp add: initial_state_inputs strip_def)
  then have "precheck_node (Raised ''unreachable'') ?s =
           ?s\<lparr> precheck_passed := False,
                precheck_failure_reason := Some ''Question is empty'',
                answer_type := ''invalid'' \<rparr>"
    by (rule precheck_empty_question)
  then show ?thesis
    by (simp add: refusal_example_facts)
qed

section \<open>Decomposition: the fallback\<close>

declare str_nat.simps [simp del]
declare split_sentences.simps [simp del]

lemma fallback_loop_claims:
  "c \<in> set (fallback_loop i ss) \<Longrightarrow>
     claim_type c = ''factual'' \<and> implicit_assumptions c = [] \<and> length (claim_text c) > 10"
  by (induction ss arbitrary: i) (auto simp: Let_def split: if_splits)

lemma fallback_loop_nonempty:
  "fallback_loop i ss \<noteq> [] \<longleftrightarrow> (\<exists>s\<in>set ss. length (strip s) > 10)"
  by (induction ss arbitrary: i) (auto simp: Let_def)

lemma fallback_loop_length: "length (fallback_loop i ss) \<le> length ss"
  by (induction ss arbitrary: i) (auto simp: Let_def le_SucI)

lemma decomposition_failure:
  assumes "call = ParseError \<or> (\<exists>e. call = Raised e)"
  shows "claims (decomposition_node call state) = fallback_claim_extraction (answer state)
     \<and> assumptions (decomposition_node call state) = []
     \<and> reasoning_steps (decomposition_node call state) = []"
  using assms by (auto simp: decomposition_node_def)

lemma fallback_loop_enumerate:
  "fallback_loop i ss =
     map (\<lambda>(k, s). \<lparr> claim_id = ''c'' @ str_nat (k + 1), claim_text = strip s,
                     claim_type = ''factual'', implicit_assumptions = [] \<rparr>)
       (filter (\<lambda>(k, s). length (strip s) > 10) (enumerate i ss))"
  by (induction ss arbitrary: i) (auto simp: Let_def)

lemma has_split_point_snoc:
  "has_split_point (xs @ [y]) =
     (has_split_point xs \<or> (xs \<noteq> [] \<and> sentence_end (last xs) \<and> is_space y))"
  by (induction xs rule: has_split_point.induct) auto

lemma split_sentences_nonempty: "split_sentences cur t \<noteq> []"
  by (induction cur t rule: split_sentences.induct) (auto simp: split_sentences.simps)

lemma split_sentences_head:
  "\<exists>r s. hd (split_sentences cur t) = cur @ r \<and> t = r @ s"
proof (induction cur t rule: split_sentences.induct)
  case (1 cur)
  then show ?case by (simp add: split_sentences.simps)
next
  case (2 cur c cs)
  show ?case
  proof (cases "sentence_end c \<and> cs \<noteq> [] \<and> is_space (hd cs)")
    case True
    then have "hd (split_sentences cur (c # cs)) = cur @ [c]"
      by (simp add: split_sentences.simps)
    then show ?thesis by (metis append_Cons append_Nil)
  next
    case False
    then have e: "split_sentences cur (c # cs) = split_sentences (cur @ [c]) cs"
      by (auto simp: split_sentences.simps)
    from "2.IH"(2) False obtain r s where
      "hd (split_sentences (cur @ [c]) cs) = (cur @ [c]) @ r" "cs = r @ s" by blast
    then have "hd (split_sentences cur (c # cs)) = cur @ (c # r) \<and> c # cs = (c # r) @ s"
      unfolding e by simp
    then show ?thesis by blast
  qed
qed

lemma split_sentences_shape:
  assumes "\<not> has_split_point cur"
    and "cur \<noteq> [] \<and> sentence_end (last cur) \<longrightarrow> t = [] \<or> \<not> is_space (hd t)"
  shows "\<exists>seps. length seps + 1 = length (split_sentences cur t)
           \<and> (\<forall>s\<in>set seps. s \<noteq> [] \<and> list_all is_space s)
           \<and> cur @ t = join_pieces (split_sentences cur t) seps
           \<and> (\<forall>p\<in>set (butlast (split_sentences cur t)). p \<noteq> [] \<and> sentence_end (last p))
           \<and> (\<forall>p\<in>set (tl (split_sentences cur t)). p = [] \<or> \<not> is_space (hd p))
           \<and> (\<forall>p\<in>set (split_sentences cur t). \<not> has_split_point p)"
  using assms
proof (induction cur t rule: split_sentences.induct)
  case (1 cur)
  have "split_sentences cur [] = [cur]" by (simp add: split_sentences.simps)
  then show ?case using "1.prems"(1) by (intro exI [of _ "[]"]) simp
next
  case (2 cur c cs)
  have nsp: "\<not> has_split_point (cur @ [c])"
    using "2.prems" by (auto simp: has_split_point_snoc)
  show ?case
  proof (cases "sentence_end c \<and> cs \<noteq> [] \<and> is_space (hd cs)")
    case True
    define rest where "rest = dropWhile is_space cs"
    define ws where "ws = takeWhile is_space cs"
    define ps where "ps = split_sentences [] rest"
    have e: "split_sentences cur (c # cs) = (cur @ [c]) # ps"
      using True by (simp add: split_sentences.simps ps_def rest_def)
    have "\<exists>seps. length seps + 1 = length ps
           \<and> (\<forall>s\<in>set seps. s \<noteq> [] \<and> list_all is_space s)
           \<and> [] @ rest = join_pieces ps seps
           \<and> (\<forall>p\<in>set (butlast ps). p \<noteq> [] \<and> sentence_end (last p))
           \<and> (\<forall>p\<in>set (tl ps). p = [] \<or> \<not> is_space (hd p))
           \<and> (\<forall>p\<in>set ps. \<not> has_split_point p)"
      unfolding ps_def rest_def using True by (intro "2.IH"(1)) simp_all
    then obtain seps where s: "length seps + 1 = length ps"
      "\<forall>s\<in>set seps. s \<noteq> [] \<and> list_all is_space s"
      "rest = join_pieces ps seps"
      "\<forall>p\<in>set (butlast ps). p \<noteq> [] \<and> sentence_end (last p)"
      "\<forall>p\<in>set (tl ps). p = [] \<or> \<not> is_space (hd p)"
      "\<forall>p\<in>set ps. \<not> has_split_point p"
      by auto
    obtain q qs where ps: "ps = q # qs"
      using split_sentences_nonempty [of "[]" rest] by (cases ps) (auto simp: ps_def)
    have ws: "ws \<noteq> [] \<and> list_all is_space ws"
    proof -
      from True obtain d ds where "cs = d # ds" "is_space d" by (cases cs) auto
      then have "ws \<noteq> []" by (simp add: ws_def)
      moreover have "list_all is_space ws"
        unfolding ws_def list_all_iff by (meson set_takeWhileD)
      ultimately show ?thesis by blast
    qed
    have cs: "cs = ws @ rest" by (simp add: ws_def rest_def)
    have q: "q = [] \<or> \<not> is_space (hd q)"
    proof -
      obtain r s' where r: "hd (split_sentences [] rest) = [] @ r" "rest = r @ s'"
        using split_sentences_head [of "[]" rest] by blast
      have qr: "q = r" using r(1) ps by (simp add: ps_def)
      show ?thesis
      proof (cases "r = []")
        case True
        then show ?thesis using qr by simp
      next
        case False
        then have "hd r = hd rest" using r(2) by (cases r) auto
        moreover have "rest \<noteq> []" using False r(2) by auto
        ultimately have "\<not> is_space (hd r)"
          unfolding rest_def using hd_dropWhile by metis
        then show ?thesis using qr by simp
      qed
    qed
    have j: "cur @ c # cs = join_pieces ((cur @ [c]) # ps) (ws # seps)"
      unfolding ps using s(3) cs by (simp add: ps)
    have b: "\<forall>p\<in>set (butlast ((cur @ [c]) # ps)). p \<noteq> [] \<and> sentence_end (last p)"
      using s(4) True by (simp add: ps)
    have t: "\<forall>p\<in>set (tl ((cur @ [c]) # ps)). p = [] \<or> \<not> is_space (hd p)"
      using s(5) q by (auto simp: ps)
    have n: "\<forall>p\<in>set ((cur @ [c]) # ps). \<not> has_split_point p"
      using s(6) nsp by simp
    have l: "length (ws # seps) + 1 = length ((cur @ [c]) # ps)"
      using s(1) by simp
    have w: "\<forall>s\<in>set (ws # seps). s \<noteq> [] \<and> list_all is_space s"
      using s(2) ws by simp
    show ?thesis
      unfolding e using l w j b t n by (intro exI [of _ "ws # seps"] conjI)
  next
    case False
    then have e: "split_sentences cur (c # cs) = split_sentences (cur @ [c]) cs"
      by (auto simp: split_sentences.simps)
    have "\<exists>seps. length seps + 1 = length (split_sentences (cur @ [c]) cs)
           \<and> (\<forall>s\<in>set seps. s \<noteq> [] \<and> list_all is_space s)
           \<and> (cur @ [c]) @ cs = join_pieces (split_sentences (cur @ [c]) cs) seps
           \<and> (\<forall>p\<in>set (butlast (split_sentences (cur @ [c]) cs)).
                 p \<noteq> [] \<and> sentence_end (last p))
           \<and> (\<forall>p\<in>set (tl (split_sentences (cur @ [c]) cs)). p = [] \<or> \<not> is_space (hd p))
           \<and> (\<forall>p\<in>set (split_sentences (cur @ [c]) cs). \<not> has_split_point p)"
      using False nsp by (intro "2.IH"(2)) auto
    then show ?thesis unfolding e by simp
  qed
qed

text \<open>
  C7, as the code has it. When the model call raises or its output cannot be parsed, the
  decomposer's claims are the fallback's, with no assumptions and no reasoning steps. The
  fallback strips the answer and splits it at each run of whitespace that follows a full
  stop, an exclamation mark or a question mark: the pieces, put together again with those
  runs, give the stripped answer, every piece but the last ends in such a mark, no piece
  after the first begins with whitespace, and no piece has such a mark followed by
  whitespace inside. Each piece of more than 10 characters after stripping becomes a claim
  whose text is the stripped piece, whose id is \<open>c\<close> and the piece's position counted from
  1, of type "factual" with an empty assumption list; the first 20 of these are returned.
  So the fallback returns at least one claim exactly when some piece is longer than 10
  characters.
\<close>

theorem fallback_claims:
  "(call = ParseError \<or> (\<exists>e. call = Raised e) \<longrightarrow>
      claims (decomposition_node call state) = fallback_claim_extraction (answer state)
      \<and> assumptions (decomposition_node call state) = []
      \<and> reasoning_steps (decomposition_node call state) = [])
   \<and> fallback_claim_extraction a =
       take 20
         (map (\<lambda>(k, s). \<lparr> claim_id = ''c'' @ str_nat (k + 1), claim_text = strip s,
                         claim_type = ''factual'', implicit_assumptions = [] \<rparr>)
            (filter (\<lambda>(k, s). length (strip s) > 10)
               (enumerate 0 (split_sentences [] (strip a)))))
   \<and> (\<exists>seps. length seps + 1 = length (split_sentences [] t)
         \<and> (\<forall>s\<in>set seps. s \<noteq> [] \<and> list_all is_space s)
         \<and> t = join_pieces (split_sentences [] t) seps
         \<and> (\<forall>p\<in>set (butlast (split_sentences [] t)). p \<noteq> [] \<and> sentence_end (last p))
         \<and> (\<forall>p\<in>set (tl (split_sentences [] t)). p = [] \<or> \<not> is_space (hd p))
         \<and> (\<forall>p\<in>set (split_sentences [] t). \<not> has_split_point p))
   \<and> (sentence_end c \<longleftrightarrow> c = CHR ''.'' \<or> c = CHR ''!'' \<or> c = CHR ''?'')
   \<and> length (fallback_claim_extraction a) \<le> 20
   \<and> (\<forall>c\<in>set (fallback_claim_extraction a).
         claim_type c = ''factual'' \<and> implicit_assumptions c = [] \<and> length (claim_text c) > 10)
   \<and> (fallback_claim_extraction a \<noteq> [] \<longleftrightarrow>
         (\<exists>s\<in>set (split_sentences [] (strip a)). length (strip s) > 10))"
proof -
  have fail: "call = ParseError \<or> (\<exists>e. call = Raised e) \<longrightarrow>
      claims (decomposition_node call state) = fallback_claim_extraction (answer state)
      \<and> assumptions (decomposition_node call state) = []
      \<and> reasoning_steps (decomposition_node call state) = []"
    using decomposition_failure [of call state] by blast
  have exact: "fallback_claim_extraction a =
       take 20
         (map (\<lambda>(k, s). \<lparr> claim_id = ''c'' @ str_nat (k + 1), claim_text = strip s,
                         claim_type = ''factual'', implicit_assumptions = [] \<rparr>)
            (filter (\<lambda>(k, s). length (strip s) > 10)
               (enumerate 0 (split_sentences [] (strip a)))))"
    unfolding fallback_claim_extraction_def fallback_loop_enumerate ..
  have shape: "\<exists>seps. length seps + 1 = length (split_sentences [] t)
         \<and> (\<forall>s\<in>set seps. s \<noteq> [] \<and> list_all is_space s)
         \<and> t = join_pieces (split_sentences [] t) seps
         \<and> (\<forall>p\<in>set (butlast (split_sentences [] t)). p \<noteq> [] \<and> sentence_end (last p))
         \<and> (\<forall>p\<in>set (tl (split_sentences [] t)). p = [] \<or> \<not> is_space (hd p))
         \<and> (\<forall>p\<in>set (split_sentences [] t). \<not> has_split_point p)"
    using split_sentences_shape [of "[]" t] by simp
  have se: "sentence_end c \<longleftrightarrow> c = CHR ''.'' \<or> c = CHR ''!'' \<or> c = CHR ''?''"
    by (rule sentence_end_def)
  have len: "length (fallback_claim_extraction a) \<le> 20"
    by (simp add: fallback_claim_extraction_def)
  have each: "\<forall>c\<in>set (fallback_claim_extraction a).
         claim_type c = ''factual'' \<and> implicit_assumptions c = [] \<and> length (claim_text c) > 10"
  proof
    fix c assume "c \<in> set (fallback_claim_extraction a)"
    then have "c \<in> set (fallback_loop 0 (split_sentences [] (strip a)))"
      unfolding fallback_claim_extraction_def by (rule in_set_takeD)
    then show "claim_type c = ''factual'' \<and> implicit_assumptions c = []
        \<and> length (claim_text c) > 10"
      by (rule fallback_loop_claims)
  qed
  have ne: "fallback_claim_extraction a \<noteq> [] \<longleftrightarrow>
         (\<exists>s\<in>set (split_sentences [] (strip a)). length (strip s) > 10)"
    unfolding fallback_claim_extraction_def
    using fallback_loop_nonempty [of 0 "split_sentences [] (strip a)"] by simp
  show ?thesis
    using fail exact shape se len each ne by (intro conjI)
qed

lemma str_nat_small: "n < 10 \<Longrightarrow> str_nat n = [digit_char n]"
  by (subst str_nat.simps) simp

lemma example_split:
  "split_sentences [] ''The sky is blue. Water is wet!  Ok? Yes, this one is long''
     = [''The sky is blue.'', ''Water is wet!'', ''Ok?'', ''Yes, this one is long'']"
  by (simp add: split_sentences.simps sentence_end_def is_space_def)

lemma example_strips:
  "strip ''The sky is blue. Water is wet!  Ok? Yes, this one is long''
     = ''The sky is blue. Water is wet!  Ok? Yes, this one is long''"
  "strip ''The sky is blue.'' = ''The sky is blue.''"
  "strip ''Water is wet!'' = ''Water is wet!''"
  "strip ''Ok?'' = ''Ok?''"
  "strip ''Yes, this one is long'' = ''Yes, this one is long''"
  by (simp_all add: strip_def is_space_def)

lemma example_fallback:
  "fallback_claim_extraction ''The sky is blue. Water is wet!  Ok? Yes, this one is long''
     = [\<lparr> claim_id = ''c1'', claim_text = ''The sky is blue.'',
          claim_type = ''factual'', implicit_assumptions = [] \<rparr>,
        \<lparr> claim_id = ''c2'', claim_text = ''Water is wet!'',
          claim_type = ''factual'', implicit_assumptions = [] \<rparr>,
        \<lparr> claim_id = ''c4'', claim_text = ''Yes, this one is long'',
          claim_type = ''factual'', implicit_assumptions = [] \<rparr>]"
  unfolding fallback_claim_extraction_def example_strips(1) example_split
  by (simp add: example_strips Let_def str_nat_small digit_char_def)

theorem fallback_claims_witness:
  "(ParseError = (ParseError :: decomposition_reply llm_call)
      \<or> (\<exists>e. (ParseError :: decomposition_reply llm_call) = Raised e))
   \<and> claims (decomposition_node ParseError
        (create_initial_state ''Why?''
           ''The sky is blue. Water is wet!  Ok? Yes, this one is long'' None ''general''))
     = [\<lparr> claim_id = ''c1'', claim_text = ''The sky is blue.'',
          claim_type = ''factual'', implicit_assumptions = [] \<rparr>,
        \<lparr> claim_id = ''c2'', claim_text = ''Water is wet!'',
          claim_type = ''factual'', implicit_assumptions = [] \<rparr>,
        \<lparr> claim_id = ''c4'', claim_text = ''Yes, this one is long'',
          claim_type = ''factual'', implicit_assumptions = [] \<rparr>]
   \<and> split_sentences [] ''The sky is blue. Water is wet!  Ok? Yes, this one is long''
     = [''The sky is blue.'', ''Water is wet!'', ''Ok?'', ''Yes, this one is long'']
   \<and> ''The sky is blue. Water is wet!  Ok? Yes, this one is long''
     = join_pieces [''The sky is blue.'', ''Water is wet!'', ''Ok?'', ''Yes, this one is long'']
         ['' '', ''  '', '' '']"
proof -
  let ?a = "''The sky is blue. Water is wet!  Ok? Yes, this one is long''"
  let ?s = "create_initial_state ''Why?'' ?a None ''general''"
  note t = fallback_claims [of "ParseError :: decomposition_reply llm_call" ?s ?a ?a]
  have ans: "answer ?s = ?a" by (simp add: create_initial_state_def)
  have "ParseError = (ParseError :: decomposition_reply llm_call)
      \<or> (\<exists>e. (ParseError :: decomposition_reply llm_call) = Raised e) \<longrightarrow>
      claims (decomposition_node ParseError ?s) = fallback_claim_extraction (answer ?s)"
    using t by blast
  then have c: "claims (decomposition_node ParseError ?s) = fallback_claim_extraction ?a"
    unfolding ans by blast
  have j: "?a = join_pieces [''The sky is blue.'', ''Water is wet!'', ''Ok?'',
      ''Yes, this one is long''] ['' '', ''  '', '' '']"
    by simp
  show ?thesis
    unfolding c example_fallback example_split using j by simp
qed

text \<open>
  C7, as the claim states it, fails: the answer "Yes." contains a full stop, and the
  fallback returns no claim for it, its only sentence having 4 characters.
\<close>

theorem short_answer_yields_no_claims:
  "CHR ''.'' \<in> set ''Yes.''
   \<and> fallback_claim_extraction ''Yes.'' = []
   \<and> claims (decomposition_node ParseError
        (create_initial_state ''Is it so?'' ''Yes.'' None ''general'')) = []
   \<and> claims (decomposition_node (Raised ''unreachable'')
        (create_initial_state ''Is it so?'' ''Yes.'' None ''general'')) = []"
proof -
  have s: "strip ''Yes.'' = ''Yes.''" by (simp add: strip_def is_space_def)
  have sp: "split_sentences [] ''Yes.'' = [''Yes.'']"
    by (simp add: split_sentences.simps sentence_end_def)
  have f: "fallback_claim_extraction ''Yes.'' = []"
    unfolding fallback_claim_extraction_def s sp by (simp add: s Let_def)
  show ?thesis
    by (simp add: f decomposition_node_def create_initial_state_def)
qed

section \<open>Recommendations\<close>

lemma add_recs_fields:
  "map rec_fields (add_recs ft trs n) =
     map (\<lambda>t. (ft, t_priority t, t_title t, t_description t, t_implementation_hint t)) trs"
  by (induction trs arbitrary: n) (auto simp: rec_fields_def)

lemma add_recs_length: "length (add_recs ft trs n) = length trs"
  by (induction trs arbitrary: n) auto

lemma add_recs_ids:
  "map recommendation_id (add_recs ft trs n) = map (\<lambda>k. ''r'' @ str_nat k) [n ..< n + length trs]"
proof (induction trs arbitrary: n)
  case Nil
  then show ?case by simp
next
  case (Cons t trs)
  have "[n ..< n + Suc (length trs)] = n # [Suc n ..< Suc n + length trs]"
    by (subst upt_rec) simp
  then show ?case using Cons.IH [of "Suc n"] by simp
qed

lemma rec_loop_fields:
  "map rec_fields (rec_loop fs seen n) =
     concat (map table_entries (first_occurrences seen (map failure_type fs)))"
  by (induction fs arbitrary: seen n)
    (auto simp: Let_def add_recs_fields table_entries_def)

lemma upt_map_split:
  "map g [n ..< n + (a + b)] = map g [n ..< n + a] @ map g [n + a ..< n + a + b]"
proof -
  have "[n ..< n + (a + b)] = [n ..< n + a] @ [n + a ..< n + a + b]"
    by (metis add.assoc le_add1 upt_add_eq_append)
  then show ?thesis by simp
qed

lemma rec_loop_ids:
  "map recommendation_id (rec_loop fs seen n) =
     map (\<lambda>k. ''r'' @ str_nat k) [n ..< n + length (rec_loop fs seen n)]"
proof (induction fs arbitrary: seen n)
  case Nil
  then show ?case by simp
next
  case (Cons f fs)
  show ?case
  proof (cases "failure_type f \<in> set seen")
    case True
    then show ?thesis using Cons.IH [of seen n] by (simp add: Let_def)
  next
    case False
    define trs where "trs = take 2 (dict_get RECOMMENDATIONS_DB (failure_type f) [])"
    define rest where "rest = rec_loop fs (failure_type f # seen) (n + length trs)"
    have r: "rec_loop (f # fs) seen n = add_recs (failure_type f) trs n @ rest"
      using False by (simp add: Let_def trs_def rest_def)
    have ih: "map recommendation_id rest =
        map (\<lambda>k. ''r'' @ str_nat k) [n + length trs ..< n + length trs + length rest]"
      unfolding rest_def by (rule Cons.IH)
    have "map recommendation_id (rec_loop (f # fs) seen n) =
        map (\<lambda>k. ''r'' @ str_nat k) [n ..< n + length trs]
        @ map (\<lambda>k. ''r'' @ str_nat k) [n + length trs ..< n + length trs + length rest]"
      unfolding r map_append add_recs_ids ih ..
    also have "\<dots> = map (\<lambda>k. ''r'' @ str_nat k) [n ..< n + (length trs + length rest)]"
      by (rule upt_map_split [symmetric])
    also have "n + (length trs + length rest) = n + length (rec_loop (f # fs) seen n)"
      unfolding r by (simp add: add_recs_length)
    finally show ?thesis .
  qed
qed

lemma first_occurrences_distinct:
  "distinct (first_occurrences seen xs) \<and> set (first_occurrences seen xs) = set xs - set seen"
  by (induction xs arbitrary: seen) auto

lemma table_entries_length: "length (table_entries ft) \<le> 2"
  by (simp add: table_entries_def)

lemma domain_recs_length: "length (domain_recs call d) \<le> 3"
  by (auto simp: domain_recs_def generate_domain_recommendations_def split: llm_call.splits)

lemma domain_recs_none:
  "d = ''general'' \<or> call = ParseError \<or> (\<exists>e. call = Raised e) \<Longrightarrow> domain_recs call d = []"
  by (auto simp: domain_recs_def generate_domain_recommendations_def)

lemma recommendations_node:
  "recommendations (recommendation_node call state) =
     (if detected_failures state = [] then []
      else take 10 (predefined_recs (detected_failures state) @ domain_recs call (domain state)))"
  by (simp add: recommendation_node_def Let_def)

lemma sorted_take: "sorted xs \<Longrightarrow> sorted (take n xs)"
  by (simp add: sorted_wrt_take)


text \<open>
  C9, as the code has it. With no retained failure there is no recommendation. Otherwise
  the retained failures are sorted by severity rank (critical, high, medium, low; stable),
  their failure types are taken once each in that order, and each type contributes the
  first two entries of the static table, with the table's priority and the ids r1, r2, ...
  in the order of generation. These predefined entries are then sorted by priority
  ascending. Up to 3 domain-specific entries are appended after them when the domain is
  not "general" (none when that call raises or its output cannot be parsed), and the list
  is cut to 10 entries. The returned list is sorted by priority when no domain-specific
  entry was appended.
\<close>

theorem recommendations_structure:
  "(detected_failures state = [] \<longrightarrow> recommendations (recommendation_node call state) = [])
   \<and> sorted (map (\<lambda>x. dict_get severity_order (severity x) 2) (sort_by_severity dfs))
   \<and> mset (sort_by_severity dfs) = mset dfs
   \<and> map_of severity_order = [''critical'' \<mapsto> 0, ''high'' \<mapsto> 1, ''medium'' \<mapsto> 2, ''low'' \<mapsto> 3]
   \<and> map rec_fields (rec_loop (sort_by_severity dfs) [] 1) =
       concat (map table_entries
         (first_occurrences [] (map failure_type (sort_by_severity dfs))))
   \<and> distinct (first_occurrences [] (map failure_type (sort_by_severity dfs)))
   \<and> set (first_occurrences [] (map failure_type (sort_by_severity dfs))) = failure_type ` set dfs
   \<and> length (table_entries ft) \<le> 2
   \<and> map recommendation_id (rec_loop (sort_by_severity dfs) [] 1) =
       map (\<lambda>k. ''r'' @ str_nat k) [1 ..< 1 + length (rec_loop (sort_by_severity dfs) [] 1)]
   \<and> mset (predefined_recs dfs) = mset (rec_loop (sort_by_severity dfs) [] 1)
   \<and> sorted (map priority (predefined_recs dfs))
   \<and> (detected_failures state \<noteq> [] \<longrightarrow>
        recommendations (recommendation_node call state) =
          take 10 (predefined_recs (detected_failures state) @ domain_recs call (domain state)))
   \<and> length (domain_recs call d) \<le> 3
   \<and> (d = ''general'' \<or> call = ParseError \<or> (\<exists>e. call = Raised e) \<longrightarrow> domain_recs call d = [])
   \<and> length (recommendations (recommendation_node call state)) \<le> 10
   \<and> (domain_recs call (domain state) = [] \<longrightarrow>
        sorted (map priority (recommendations (recommendation_node call state))))"
proof -
  have c1: "detected_failures state = [] \<longrightarrow> recommendations (recommendation_node call state) = []"
    by (simp add: recommendations_node)
  have c2: "sorted (map (\<lambda>x. dict_get severity_order (severity x) 2) (sort_by_severity dfs))"
    by (simp add: sort_by_severity_def)
  have c3: "mset (sort_by_severity dfs) = mset dfs"
    by (simp add: sort_by_severity_def)
  have c4: "map_of severity_order =
      [''critical'' \<mapsto> 0, ''high'' \<mapsto> 1, ''medium'' \<mapsto> 2, ''low'' \<mapsto> 3]"
    by (rule ext) (simp add: severity_order_def)
  have c5: "map rec_fields (rec_loop (sort_by_severity dfs) [] 1) =
       concat (map table_entries
         (first_occurrences [] (map failure_type (sort_by_severity dfs))))"
    by (rule rec_loop_fields)
  have c6: "distinct (first_occurrences [] (map failure_type (sort_by_severity dfs)))"
    by (simp add: first_occurrences_distinct)
  have c7: "set (first_occurrences [] (map failure_type (sort_by_severity dfs)))
      = failure_type ` set dfs"
    by (simp add: first_occurrences_distinct sort_by_severity_def)
  have c8: "length (table_entries ft) \<le> 2" by (rule table_entries_length)
  have c9: "map recommendation_id (rec_loop (sort_by_severity dfs) [] 1) =
       map (\<lambda>k. ''r'' @ str_nat k) [1 ..< 1 + length (rec_loop (sort_by_severity dfs) [] 1)]"
    by (rule rec_loop_ids)
  have c10: "mset (predefined_recs dfs) = mset (rec_loop (sort_by_severity dfs) [] 1)"
    by (simp add: predefined_recs_def)
  have c11: "sorted (map priority (predefined_recs dfs))"
    by (simp add: predefined_recs_def)
  have c12: "detected_failures state \<noteq> [] \<longrightarrow>
        recommendations (recommendation_node call state) =
          take 10 (predefined_recs (detected_failures state) @ domain_recs call (domain state))"
    by (simp add: recommendations_node)
  have c13: "length (domain_recs call d) \<le> 3" by (rule domain_recs_length)
  have c14: "d = ''general'' \<or> call = ParseError \<or> (\<exists>e. call = Raised e)
      \<longrightarrow> domain_recs call d = []"
    using domain_recs_none [of d call] by blast
  have c15: "length (recommendations (recommendation_node call state)) \<le> 10"
  proof (cases "detected_failures state = []")
    case True
    then show ?thesis by (simp add: recommendations_node)
  next
    case False
    then have "recommendations (recommendation_node call state) =
        take 10 (predefined_recs (detected_failures state) @ domain_recs call (domain state))"
      by (simp add: recommendations_node)
    then show ?thesis by (simp only: length_take min.cobounded2)
  qed
  have c16: "domain_recs call (domain state) = [] \<longrightarrow>
        sorted (map priority (recommendations (recommendation_node call state)))"
  proof
    assume e: "domain_recs call (domain state) = []"
    have "sorted (take 10 (map priority (predefined_recs (detected_failures state))))"
      by (rule sorted_take) (simp add: predefined_recs_def)
    then show "sorted (map priority (recommendations (recommendation_node call state)))"
      by (simp add: recommendations_node e take_map)
  qed
  show ?thesis
    using c1 c2 c3 c4 c5 c6 c7 c8 c9 c10 c11 c12 c13 c14 c15 c16 by blast
qed

lemma example_two_types:
  "map (\<lambda>r. (recommendation_id r, rec_failure_type r, priority r))
     (predefined_recs [signal ''overconfidence'' True 0.6 ''low'',
                       signal ''hallucination'' True 0.9 ''critical''])
   = [(''r1'', ''hallucination'', 1), (''r3'', ''overconfidence'', 1),
      (''r2'', ''hallucination'', 2), (''r4'', ''overconfidence'', 2)]"
  by (simp add: predefined_recs_def sort_by_severity_def severity_order_def dict_get_def
      RECOMMENDATIONS_DB_def signal_def Let_def str_nat_small digit_char_def)

theorem recommendations_structure_witness:
  "detected_failures (state_with ''medical''
      [signal ''overconfidence'' True 0.6 ''low'',
       signal ''hallucination'' True 0.9 ''critical'']) \<noteq> []
   \<and> (''medical'' = ''general''
        \<or> (ParseError :: raw_recommendation list option llm_call) = ParseError
        \<or> (\<exists>e. (ParseError :: raw_recommendation list option llm_call) = Raised e))
   \<and> domain_recs (ParseError :: raw_recommendation list option llm_call) ''medical'' = []
   \<and> map (\<lambda>r. (recommendation_id r, rec_failure_type r, priority r))
        (recommendations (recommendation_node ParseError
          (state_with ''medical''
            [signal ''overconfidence'' True 0.6 ''low'',
             signal ''hallucination'' True 0.9 ''critical''])))
       = [(''r1'', ''hallucination'', 1), (''r3'', ''overconfidence'', 1),
          (''r2'', ''hallucination'', 2), (''r4'', ''overconfidence'', 2)]
   \<and> sorted (map priority
        (recommendations (recommendation_node ParseError
          (state_with ''medical''
            [signal ''overconfidence'' True 0.6 ''low'',
             signal ''hallucination'' True 0.9 ''critical'']))))"
proof -
  let ?dfs = "[signal ''overconfidence'' True 0.6 ''low'',
               signal ''hallucination'' True 0.9 ''critical'']"
  let ?s = "state_with ''medical'' ?dfs"
  let ?call = "ParseError :: raw_recommendation list option llm_call"
  note t = recommendations_structure [of ?s ?call ?dfs "''hallucination''" "''medical''"]
  note d = state_with_simps
  have ne: "detected_failures ?s \<noteq> []" by (simp add: d)
  have none: "domain_recs ?call ''medical'' = []" using t by blast
  have r0: "detected_failures ?s \<noteq> [] \<longrightarrow>
        recommendations (recommendation_node ?call ?s) =
          take 10 (predefined_recs (detected_failures ?s) @ domain_recs ?call (domain ?s))"
    using t by blast
  have r: "recommendations (recommendation_node ?call ?s) = take 10 (predefined_recs ?dfs)"
    using r0 ne none unfolding d by simp
  have l: "map (\<lambda>r. (recommendation_id r, rec_failure_type r, priority r))
        (recommendations (recommendation_node ?call ?s))
       = [(''r1'', ''hallucination'', 1), (''r3'', ''overconfidence'', 1),
          (''r2'', ''hallucination'', 2), (''r4'', ''overconfidence'', 2)]"
    unfolding r take_map [symmetric] example_two_types by simp
  have s0: "domain_recs ?call (domain ?s) = [] \<longrightarrow>
        sorted (map priority (recommendations (recommendation_node ?call ?s)))"
    using t by blast
  have s: "sorted (map priority (recommendations (recommendation_node ?call ?s)))"
    using s0 none unfolding d by simp
  show ?thesis
    using ne none l s by blast
qed

text \<open>
  C9, as the claim states it, fails: in the medical domain, with one retained
  hallucination signal and a domain-specific entry of priority 1 from the model, the
  returned priorities are 1, 2, 1, which is not ascending.
\<close>

theorem domain_recs_break_priority_order:
  "map priority
     (recommendations (recommendation_node
        (Parsed (Some [\<lparr> raw_recommendation_id = None, raw_priority = Some 1,
                         raw_failure_type = None, raw_title = None,
                         raw_description = None, raw_implementation_hint = None \<rparr>]))
        (state_with ''medical'' [signal ''hallucination'' True 0.9 ''high'']))) = [1, 2, 1]
   \<and> \<not> sorted (map priority
     (recommendations (recommendation_node
        (Parsed (Some [\<lparr> raw_recommendation_id = None, raw_priority = Some 1,
                         raw_failure_type = None, raw_title = None,
                         raw_description = None, raw_implementation_hint = None \<rparr>]))
        (state_with ''medical'' [signal ''hallucination'' True 0.9 ''high'']))))"
proof -
  let ?dfs = "[signal ''hallucination'' True 0.9 ''high'']"
  let ?s = "state_with ''medical'' ?dfs"
  let ?call = "Parsed (Some [\<lparr> raw_recommendation_id = None, raw_priority = Some 1,
                         raw_failure_type = None, raw_title = None,
                         raw_description = None, raw_implementation_hint = None \<rparr>])"
  note d = state_with_simps
  have p: "map priority (predefined_recs ?dfs) = [1, 2]"
    by (simp add: predefined_recs_def sort_by_severity_def severity_order_def dict_get_def
        RECOMMENDATIONS_DB_def signal_def Let_def)
  have e: "map priority (domain_recs ?call ''medical'') = [1]"
    by (simp add: domain_recs_def generate_domain_recommendations_def read_recommendation_def
        or_default_def)
  have "map priority (recommendations (recommendation_node ?call ?s))
        = take 10 (map priority (predefined_recs ?dfs) @ map priority (domain_recs ?call ''medical''))"
    by (simp add: recommendations_node d take_map)
  then have m: "map priority (recommendations (recommendation_node ?call ?s)) = [1, 2, 1]"
    unfolding p e by simp
  show ?thesis unfolding m by simp
qed

section \<open>Model client: retries\<close>

lemma generate_body_not_retried: "generate_body out = Inl e \<Longrightarrow> \<not> retry_if_exception_type e"
  by (auto simp: generate_body_def retry_if_exception_type_def split: http_outcome.splits)

lemma retrying_once: "retrying left backend k = (generate_body (backend k), k)"
proof (cases "generate_body (backend k)")
  case (Inl e)
  then show ?thesis using generate_body_not_retried [OF Inl] by simp
next
  case (Inr r)
  then show ?thesis by simp
qed

declare retrying.simps [simp del]

text \<open>
  C5. The decorator retries on \<open>httpx.TimeoutException\<close> and
  \<open>httpx.ConnectError\<close>, but the body of \<open>generate\<close> catches both and raises
  \<open>OllamaTimeoutError\<close> and \<open>OllamaConnectionError\<close> in their place, which the
  decorator does not retry: every call makes exactly one attempt. A backend that times out
  on the first attempt and would answer on the second gives \<open>OllamaTimeoutError\<close> after
  one attempt.
\<close>

theorem generate_makes_one_attempt:
  "generate backend = (generate_body (backend 1), 1)
   \<and> generate (\<lambda>k. if k = 1 then HttpTimeout else HttpResponse ''ok'')
       = (Inl OllamaTimeoutError, 1)
   \<and> generate (\<lambda>k. if k = 1 then HttpConnectFailure else HttpResponse ''ok'')
       = (Inl OllamaConnectionError, 1)"
  by (simp add: generate_def retrying_once generate_body_def)

section \<open>Detectors: the stored confidence\<close>

text \<open>
  C3. The hallucination detector stores the confidence of the model's reply as it is: a
  reply with confidence 1.7 and the detected flag set gives a signal of confidence 1.7,
  which the aggregator retains.
\<close>

theorem unclamped_confidence_is_stored:
  "map_option confidence
     (hallucination_signal
        (hallucination_detector
           (Parsed \<lparr> hallucination_detected = Some True, reply_confidence = Some 1.7,
                     reply_severity = Some ''high'', reply_summary = None,
                     reply_findings = None \<rparr>)
           (create_initial_state ''q'' ''a'' None ''general''))) = Some 1.7
   \<and> map confidence
       (detected_failures
          (aggregation_node default_settings
             (hallucination_detector
                (Parsed \<lparr> hallucination_detected = Some True, reply_confidence = Some 1.7,
                          reply_severity = Some ''high'', reply_summary = None,
                          reply_findings = None \<rparr>)
                (create_initial_state ''q'' ''a'' None ''general'')))) = [1.7]
   \<and> \<not> ((1.7 :: real) \<le> 1.0)"
  by (simp add: hallucination_detector_def or_default_def create_initial_state_def
      detected_failures_aggregation collect_signals_def map_filter_def
      sort_by_confidence_def default_settings_def nonempty_texts_def)

section \<open>Model client: the layered parse\<close>























end
